theory Spec2Isabelle
  imports Complex_Main "HOL-Library.Multiset"
begin

section \<open>Conventions of the embedding\<close>

text \<open>
  The theory embeds the fitting engine of \<^verbatim>\<open>grizli/fitting.py\<close> (class
  \<^verbatim>\<open>GroupFitter\<close>). The arrays that the group holds and the fit computes are lists of
  reals, boolean arrays are lists of booleans, and a two-dimensional array is a list of rows.
  Arithmetic on them is exact: rounding is not modelled. Where NumPy would raise, the model
  returns \<open>Inl\<close> of the exception, and the state of the group at that point is not
  modelled. Where the code would put an infinity or a NaN into an array (NumPy only warns
  there), the model returns \<open>Inl NonFinite\<close>, because the real numbers have no such
  value. The photometric fluxes and uncertainties come from outside (a catalogue may hold an
  infinite uncertainty), so they are IEEE values of the type \<open>fl\<close> below, and the
  arithmetic on them overflows and underflows as doubles do.
\<close>

datatype error = ValueError | IndexError | TypeError | AttributeError | LinAlgError | NonFinite

datatype pyret = PyTrue | PyFalse | PyNone

definition ebind :: "error + 'a \<Rightarrow> ('a \<Rightarrow> error + 'b) \<Rightarrow> error + 'b" where
  "ebind m f = (case m of Inl e \<Rightarrow> Inl e | Inr x \<Rightarrow> f x)"

text \<open>Elementwise binary operation with NumPy's broadcasting rule for one-dimensional arrays.\<close>

definition np_binop :: "('a \<Rightarrow> 'b \<Rightarrow> 'c) \<Rightarrow> 'a list \<Rightarrow> 'b list \<Rightarrow> error + 'c list" where
  "np_binop f xs ys =
     (if length xs = length ys then Inr (map2 f xs ys)
      else if length xs = 1 then Inr (map (f (hd xs)) ys)
      else if length ys = 1 then Inr (map (\<lambda>x. f x (hd ys)) xs)
      else Inl ValueError)"

text \<open>\<^verbatim>\<open>mask.sum()\<close> of a boolean array.\<close>

definition count_true :: "bool list \<Rightarrow> nat" where
  "count_true bs = length (filter id bs)"

text \<open>\<^verbatim>\<open>int(x)\<close> of a float: truncation toward zero.\<close>

definition py_int :: "real \<Rightarrow> int" where
  "py_int x = (if 0 \<le> x then \<lfloor>x\<rfloor> else \<lceil>x\<rceil>)"

text \<open>\<^verbatim>\<open>x[:-k]\<close> for \<open>k > 0\<close>: everything but the last \<open>k\<close> entries.\<close>

definition drop_last :: "nat \<Rightarrow> 'a list \<Rightarrow> 'a list" where
  "drop_last k xs = take (length xs - k) xs"

text \<open>\<^verbatim>\<open>(weightf*fit_mask).sum()\<close>: a boolean counts as 0 or 1.\<close>

definition weighted_count :: "real list \<Rightarrow> bool list \<Rightarrow> error + real" where
  "weighted_count w m =
     ebind (np_binop (\<lambda>x b. x * (if b then 1 else 0)) w m) (\<lambda>p. Inr (sum_list p))"

section \<open>IEEE values\<close>

text \<open>
  A double is a finite real, an infinity or a NaN. An exact result of magnitude
  \<open>2\<^sup>1\<^sup>0\<^sup>2\<^sup>4 - 2\<^sup>9\<^sup>7\<^sup>0\<close> or more rounds to an infinity, one of magnitude
  \<open>2\<^sup>-\<^sup>1\<^sup>0\<^sup>7\<^sup>5\<close> or less rounds to zero; in between the exact value is kept. The sign
  of a zero is not modelled.
\<close>

datatype fl = Fin real | PInf | NInf | NaN

definition DBL_OVER :: real where
  "DBL_OVER = 2 ^ 1024 - 2 ^ 970"

definition DBL_UNDER :: real where
  "DBL_UNDER = 1 / 2 ^ 1075"

definition fl_range :: "real \<Rightarrow> fl" where
  "fl_range x =
     (if DBL_OVER \<le> x then PInf
      else if x \<le> - DBL_OVER then NInf
      else if \<bar>x\<bar> \<le> DBL_UNDER then Fin 0
      else Fin x)"

fun is_fin :: "fl \<Rightarrow> bool" where
  "is_fin (Fin x) = True"
| "is_fin _ = False"

fun the_fin :: "fl \<Rightarrow> real" where
  "the_fin (Fin x) = x"
| "the_fin _ = 0"

text \<open>The sign of a value that is not a NaN, and the infinity of a sign (a NaN for sign 0).\<close>

fun fl_sgn :: "fl \<Rightarrow> real" where
  "fl_sgn (Fin x) = sgn x"
| "fl_sgn PInf = 1"
| "fl_sgn NInf = - 1"
| "fl_sgn NaN = 0"

definition inf_of_sign :: "real \<Rightarrow> fl" where
  "inf_of_sign s = (if s > 0 then PInf else if s < 0 then NInf else NaN)"

fun fl_mul :: "fl \<Rightarrow> fl \<Rightarrow> fl" where
  "fl_mul (Fin x) (Fin y) = fl_range (x * y)"
| "fl_mul NaN b = NaN"
| "fl_mul a NaN = NaN"
| "fl_mul a b = inf_of_sign (fl_sgn a * fl_sgn b)"

fun fl_add :: "fl \<Rightarrow> fl \<Rightarrow> fl" where
  "fl_add (Fin x) (Fin y) = fl_range (x + y)"
| "fl_add NaN b = NaN"
| "fl_add a NaN = NaN"
| "fl_add PInf NInf = NaN"
| "fl_add NInf PInf = NaN"
| "fl_add PInf b = PInf"
| "fl_add a PInf = PInf"
| "fl_add NInf b = NInf"
| "fl_add a NInf = NInf"

fun fl_div :: "fl \<Rightarrow> fl \<Rightarrow> fl" where
  "fl_div (Fin x) (Fin y) = (if y = 0 then inf_of_sign (sgn x) else fl_range (x / y))"
| "fl_div NaN b = NaN"
| "fl_div a NaN = NaN"
| "fl_div (Fin x) b = Fin 0"
| "fl_div a (Fin y) = inf_of_sign (fl_sgn a * (if y < 0 then - 1 else 1))"
| "fl_div a b = NaN"

fun fl_sqrt :: "fl \<Rightarrow> fl" where
  "fl_sqrt (Fin x) = (if x < 0 then NaN else Fin (sqrt x))"
| "fl_sqrt PInf = PInf"
| "fl_sqrt a = NaN"

text \<open>The comparisons \<^verbatim>\<open>x > 0\<close> and \<^verbatim>\<open>x < 0\<close>; both are false on a NaN.\<close>

fun fl_pos :: "fl \<Rightarrow> bool" where
  "fl_pos (Fin x) = (0 < x)"
| "fl_pos PInf = True"
| "fl_pos a = False"

fun fl_neg :: "fl \<Rightarrow> bool" where
  "fl_neg (Fin x) = (x < 0)"
| "fl_neg NInf = True"
| "fl_neg a = False"

section \<open>The group and its photometry\<close>

type_synonym matrix = "real list list"

datatype photfilter = PhotFilter (pivot: real)

text \<open>A template spectrum (\<^verbatim>\<open>utils.SpectrumTemplate\<close>): wavelengths and fluxes.\<close>

record template =
  t_wave :: "real list"
  t_flux :: "real list"

text \<open>
  An exposure as the fit reads it: its flattened fit mask, its shape \<^verbatim>\<open>sh\<close>, the
  wavelength of each detector column and the names of its thumbnails.
\<close>

record beam =
  b_fit_mask :: "bool list"
  b_sh :: "nat \<times> nat"
  b_wave :: "real list"
  b_thumbs :: "string list"

text \<open>
  The precomputed template-filter grid of eazy-py (\<^verbatim>\<open>tempfilt\<close>): its number of
  templates and its evaluation at a redshift.
\<close>

record tempfilt_t =
  tf_NTEMP :: nat
  tf_call :: "real \<Rightarrow> matrix"

text \<open>
  \<^verbatim>\<open>is_spec\<close> is the scalar 1 after \<^verbatim>\<open>unset_photometry\<close> and a boolean array after
  \<^verbatim>\<open>set_photometry\<close>.
\<close>

datatype is_spec_t = SpecScalar real | SpecMask "bool list"

record group =
  N :: nat
  Nphot :: nat
  Nmask :: nat
  DoF :: int
  scif :: "real list"
  sivarf :: "real list"
  weightf :: "real list"
  fit_mask :: "bool list"
  wavef :: "real list"
  is_spec :: is_spec_t
  A_bgm :: matrix
  beams :: "beam list"
  mslices :: "nat list option list"
  pscale :: "real list option"
  photom_flam :: "real list"
  photom_eflam :: "real list"
  photom_filters :: "photfilter list"
  photom_pivot :: "real list"
  tempfilt :: "tempfilt_t option"

text \<open>
  \<^verbatim>\<open>set_photometry(flam, eflam, filters, force, tempfilt, min_err)\<close>. The method returns
  \<^verbatim>\<open>True\<close> on its two early exits, \<^verbatim>\<open>False\<close> on a dimension mismatch and
  \<^verbatim>\<open>None\<close> (no return statement) when it has attached the photometry.

  \<open>photom_err\<close> is one entry of \<^verbatim>\<open>self.photom_eflam\<close>:
  \<^verbatim>\<open>np.sqrt(eflam**2+(min_err*flam)**2)\<close>, replaced by \<open>-99\<close> where
  \<^verbatim>\<open>eflam < 0\<close>. The new entries of \<^verbatim>\<open>weightf\<close>, \<^verbatim>\<open>photom_eflam*0+1\<close>, are 1
  where that error is finite and NaN where it is not; a NaN makes
  \<^verbatim>\<open>(self.weightf*self.fit_mask).sum()\<close> a NaN, and \<^verbatim>\<open>int\<close> of it raises
  \<^verbatim>\<open>ValueError\<close>. An infinite \<^verbatim>\<open>1/photom_eflam\<close> or flux is stored without an
  exception.
\<close>

definition photom_err :: "real \<Rightarrow> fl \<Rightarrow> fl \<Rightarrow> fl" where
  "photom_err min_err e f =
     (if fl_neg e then Fin (- 99)
      else fl_sqrt (fl_add (fl_mul e e)
             (fl_mul (fl_mul (Fin min_err) f) (fl_mul (Fin min_err) f))))"

definition set_photometry ::
  "fl list \<Rightarrow> fl list \<Rightarrow> photfilter list \<Rightarrow> bool \<Rightarrow> tempfilt_t option \<Rightarrow> real \<Rightarrow> group
     \<Rightarrow> error + (pyret \<times> group)" where
  "set_photometry flam eflam filters force tf min_err g =
     (if Nphot g > 0 \<and> \<not> force then Inr (PyTrue, g)
      else
        let g1 = g\<lparr>Nphot := count_true (map fl_pos eflam)\<rparr> in
        if Nphot g1 = 0 then Inr (PyTrue, g1)
        else if length flam \<noteq> length eflam \<or> length flam \<noteq> length filters then Inr (PyFalse, g1)
        else
          let pe = map2 (photom_err min_err) eflam flam;
              sv = map (fl_div (Fin 1)) pe;
              wt = map (\<lambda>p. fl_add (fl_mul p (Fin 0)) (Fin 1)) pe
          in if NaN \<in> set wt then Inl ValueError
          else
            let sivarf' = sivarf g1 @ map the_fin sv;
                weightf' = weightf g1 @ map the_fin wt;
                fit_mask' = fit_mask g1 @ map fl_pos eflam;
                scif' = scif g1 @ map the_fin flam;
                piv = map pivot filters
            in ebind (weighted_count weightf' fit_mask') (\<lambda>s.
                 if \<not> (list_all is_fin sv \<and> list_all is_fin flam) then Inl NonFinite
                 else
                 Inr (PyNone,
                   g1\<lparr>photom_flam := map the_fin flam, photom_eflam := map the_fin pe,
                      photom_filters := filters,
                      sivarf := sivarf', weightf := weightf', fit_mask := fit_mask',
                      Nmask := count_true fit_mask', scif := scif', DoF := py_int s,
                      is_spec := SpecMask (replicate (length scif' - length flam) True
                                           @ replicate (length flam) False),
                      photom_pivot := piv, wavef := wavef g1 @ piv, tempfilt := tf\<rparr>)))"

definition unset_photometry :: "group \<Rightarrow> error + (pyret \<times> group)" where
  "unset_photometry g =
     (if Nphot g = 0 then Inr (PyTrue, g)
      else
        let k = Nphot g;
            sivarf' = drop_last k (sivarf g);
            weightf' = drop_last k (weightf g);
            fit_mask' = drop_last k (fit_mask g);
            scif' = drop_last k (scif g);
            wavef' = drop_last k (wavef g)
        in ebind (weighted_count weightf' fit_mask') (\<lambda>s.
             Inr (PyNone,
               g\<lparr>sivarf := sivarf', weightf := weightf', fit_mask := fit_mask', scif := scif',
                 wavef := wavef', Nmask := count_true fit_mask', DoF := py_int s,
                 is_spec := SpecScalar 1, Nphot := 0\<rparr>)))"

text \<open>\<^verbatim>\<open>set_photometry\<close> and, if it returns, \<^verbatim>\<open>unset_photometry\<close> right after it.\<close>

definition set_then_unset ::
  "fl list \<Rightarrow> fl list \<Rightarrow> photfilter list \<Rightarrow> bool \<Rightarrow> tempfilt_t option \<Rightarrow> real \<Rightarrow> group
     \<Rightarrow> error + group" where
  "set_then_unset flam eflam filters force tf min_err g =
     ebind (set_photometry flam eflam filters force tf min_err g) (\<lambda>rg.
     ebind (unset_photometry (snd rg)) (\<lambda>rg2. Inr (snd rg2)))"

text \<open>
  A flux and its uncertainty of moderate size: the uncertainty is a finite number between
  \<open>2\<^sup>-\<^sup>5\<^sup>0\<^sup>0\<close> and \<open>2\<^sup>5\<^sup>0\<^sup>0\<close> and the flux is finite with
  \<open>|min_err \<cdot> flam| \<le> 2\<^sup>5\<^sup>0\<^sup>0\<close>, so that no square overflows and the inverse of the
  error is finite.
\<close>

definition phot_in_range :: "real \<Rightarrow> fl \<Rightarrow> fl \<Rightarrow> bool" where
  "phot_in_range min_err e f =
     (case e of
        Fin ev \<Rightarrow>
          (case f of
             Fin fv \<Rightarrow> 1 / 2 ^ 500 \<le> ev \<and> ev \<le> 2 ^ 500 \<and> \<bar>min_err * fv\<bar> \<le> 2 ^ 500
           | _ \<Rightarrow> False)
      | _ \<Rightarrow> False)"

text \<open>The value of \<^verbatim>\<open>is_spec\<close> at a position, after broadcasting.\<close>

definition is_spec_at :: "is_spec_t \<Rightarrow> nat \<Rightarrow> real" where
  "is_spec_at sp i = (case sp of SpecScalar c \<Rightarrow> c | SpecMask m \<Rightarrow> (if m ! i then 1 else 0))"

text \<open>A small group without photometry: one exposure of three pixels, the last one masked.\<close>

definition toy_group :: group where
  "toy_group =
     \<lparr>N = 1, Nphot = 0, Nmask = 2, DoF = 2,
      scif = [1, 2, 3], sivarf = [1, 1, 1], weightf = [1, 1, 1],
      fit_mask = [True, True, False], wavef = [11000, 12000, 13000],
      is_spec = SpecScalar 1, A_bgm = [[1, 1]],
      beams = [\<lparr>b_fit_mask = [True, True, False], b_sh = (1, 3),
                b_wave = [11000, 12000, 13000], b_thumbs = []\<rparr>],
      mslices = [Some [0, 1]], pscale = None,
      photom_flam = [], photom_eflam = [], photom_filters = [], photom_pivot = [],
      tempfilt = None\<rparr>"

text \<open>The same group with a \<^verbatim>\<open>DoF\<close> that is not the weighted count of its valid pixels.\<close>

definition stale_group :: group where
  "stale_group = toy_group\<lparr>DoF := 7\<rparr>"

section \<open>Array helpers\<close>

definition zeros :: "nat \<Rightarrow> real list" where
  "zeros n = replicate n 0"

definition zeros2 :: "nat \<Rightarrow> nat \<Rightarrow> matrix" where
  "zeros2 r c = replicate r (zeros c)"

primrec emap :: "('a \<Rightarrow> error + 'b) \<Rightarrow> 'a list \<Rightarrow> error + 'b list" where
  "emap f [] = Inr []"
| "emap f (x # xs) = ebind (f x) (\<lambda>y. ebind (emap f xs) (\<lambda>ys. Inr (y # ys)))"

primrec efold :: "('a \<Rightarrow> 'b \<Rightarrow> error + 'b) \<Rightarrow> 'a list \<Rightarrow> 'b \<Rightarrow> error + 'b" where
  "efold f [] s = Inr s"
| "efold f (x # xs) s = ebind (f x s) (efold f xs)"

text \<open>Boolean-mask selection \<^verbatim>\<open>x[mask]\<close>; the mask must be as long as the array.\<close>

definition np_mask :: "'a list \<Rightarrow> bool list \<Rightarrow> error + 'a list" where
  "np_mask xs m =
     (if length xs = length m then Inr (map fst (filter snd (zip xs m))) else Inl IndexError)"

text \<open>Broadcasting a one-dimensional value to a target length, and a matrix to a target shape.\<close>

definition np_broadcast :: "nat \<Rightarrow> 'a list \<Rightarrow> error + 'a list" where
  "np_broadcast n v =
     (if length v = n then Inr v
      else if length v = 1 then Inr (replicate n (hd v))
      else Inl ValueError)"

definition np_broadcast2 :: "nat \<Rightarrow> nat \<Rightarrow> matrix \<Rightarrow> error + matrix" where
  "np_broadcast2 r c M =
     (if length M = r then emap (np_broadcast c) M
      else if length M = 1 then ebind (np_broadcast c (hd M)) (\<lambda>row. Inr (replicate r row))
      else Inl ValueError)"

text \<open>One row combined with a vector that has the row's length or length one.\<close>

definition row_op :: "(real \<Rightarrow> real \<Rightarrow> real) \<Rightarrow> real list \<Rightarrow> real list \<Rightarrow> real list" where
  "row_op f row v = (if length v = 1 then map (\<lambda>x. f x (hd v)) row else map2 f row v)"

text \<open>
  \<^verbatim>\<open>M * v\<close> and \<^verbatim>\<open>M / v\<close> for a matrix with \<open>ncols\<close> columns and a vector; a
  division by a zero entry leaves an infinity or a NaN in the result.
\<close>

definition np_rows_binop ::
  "(real \<Rightarrow> real \<Rightarrow> real) \<Rightarrow> nat \<Rightarrow> matrix \<Rightarrow> real list \<Rightarrow> error + matrix" where
  "np_rows_binop f ncols M v =
     (if ncols = length v \<or> length v = 1 \<or> ncols = 1 then emap (\<lambda>row. np_binop f row v) M
      else Inl ValueError)"

definition np_rows_div :: "nat \<Rightarrow> matrix \<Rightarrow> real list \<Rightarrow> error + matrix" where
  "np_rows_div ncols M v =
     ebind (np_rows_binop (/) ncols M v) (\<lambda>R.
       if M \<noteq> [] \<and> ncols \<noteq> 0 \<and> 0 \<in> set v then Inl NonFinite else Inr R)"

definition bc_cols :: "nat \<Rightarrow> real list \<Rightarrow> nat" where
  "bc_cols ncols v = (if ncols = 1 then length v else ncols)"

text \<open>The stop of the slice \<^verbatim>\<open>x[:k]\<close> on an axis of length \<open>n\<close>; a negative \<open>k\<close> counts from the end.\<close>

definition slice_stop :: "nat \<Rightarrow> int \<Rightarrow> nat" where
  "slice_stop n k = (if k < 0 then nat (int n + k) else min (nat k) n)"

text \<open>\<^verbatim>\<open>x[-k:] = v\<close> for \<open>k > 0\<close> and a scalar \<open>v\<close>.\<close>

definition set_tail :: "nat \<Rightarrow> real \<Rightarrow> real list \<Rightarrow> real list" where
  "set_tail k v xs = take (length xs - k) xs @ replicate (min k (length xs)) v"

definition np_min :: "real list \<Rightarrow> real" where
  "np_min xs = fold min (tl xs) (hd xs)"

definition np_max :: "real list \<Rightarrow> real" where
  "np_max xs = fold max (tl xs) (hd xs)"

text \<open>\<^verbatim>\<open>np.dot(v, M)\<close> for a vector and a matrix with \<open>ncols\<close> columns.\<close>

definition np_dot :: "real list \<Rightarrow> matrix \<Rightarrow> nat \<Rightarrow> error + real list" where
  "np_dot v M ncols =
     (if length v \<noteq> length M then Inl ValueError
      else Inr (map (\<lambda>c. sum_list (map2 (\<lambda>x row. x * row ! c) v M)) [0..<ncols]))"

definition np_T :: "nat \<Rightarrow> matrix \<Rightarrow> matrix" where
  "np_T ncols M = map (\<lambda>c. map (\<lambda>row. row ! c) M) [0..<ncols]"

text \<open>\<^verbatim>\<open>np.dot(AxT.T, AxT)\<close>, written on \<^verbatim>\<open>Ax\<close>: the Gram matrix of its rows.\<close>

definition gram :: "matrix \<Rightarrow> matrix" where
  "gram M = map (\<lambda>r. map (\<lambda>r'. sum_list (map2 (*) r r')) M) M"

definition diagonal :: "matrix \<Rightarrow> real list" where
  "diagonal M = map (\<lambda>i. M ! i ! i) [0..<length M]"

text \<open>\<^verbatim>\<open>np.sqrt\<close> of an array: a negative entry gives a NaN.\<close>

definition np_sqrt :: "real list \<Rightarrow> error + real list" where
  "np_sqrt xs = (if \<exists>x\<in>set xs. x < 0 then Inl NonFinite else Inr (map sqrt xs))"

text \<open>\<^verbatim>\<open>base[mask] = vals\<close>.\<close>

primrec fill_mask :: "real list \<Rightarrow> bool list \<Rightarrow> real list \<Rightarrow> real list" where
  "fill_mask [] m vs = []"
| "fill_mask (b # bs) m vs =
     (case m of
        [] \<Rightarrow> b # bs
      | True # m' \<Rightarrow> (case vs of [] \<Rightarrow> b # bs | v # vs' \<Rightarrow> v # fill_mask bs m' vs')
      | False # m' \<Rightarrow> b # fill_mask bs m' vs)"

definition mask_assign :: "real list \<Rightarrow> bool list \<Rightarrow> real list \<Rightarrow> error + real list" where
  "mask_assign base m vals =
     (if length m \<noteq> length base then Inl IndexError
      else ebind (np_broadcast (count_true m) vals) (\<lambda>v. Inr (fill_mask base m v)))"

text \<open>\<^verbatim>\<open>x[n:] *= c\<close> and \<^verbatim>\<open>M[n:,n:] *= c\<close>.\<close>

definition scale_from :: "nat \<Rightarrow> real \<Rightarrow> real list \<Rightarrow> real list" where
  "scale_from n c xs = take n xs @ map (\<lambda>x. x * c) (drop n xs)"

definition scale_block :: "nat \<Rightarrow> real \<Rightarrow> matrix \<Rightarrow> matrix" where
  "scale_block n c M = take n M @ map (scale_from n c) (drop n M)"

text \<open>\<^verbatim>\<open>row[idx] = vals\<close> for an index array, or for \<^verbatim>\<open>None\<close> (a new axis: the whole row).\<close>

definition set_idx :: "real list \<Rightarrow> nat list option \<Rightarrow> real list \<Rightarrow> error + real list" where
  "set_idx row sl vals =
     (case sl of
        None \<Rightarrow> np_broadcast (length row) vals
      | Some idx \<Rightarrow>
          if \<exists>i\<in>set idx. i \<ge> length row then Inl IndexError
          else ebind (np_broadcast (length idx) vals) (\<lambda>v.
                 Inr (fold (\<lambda>(i, x) r. r[i := x]) (zip idx v) row)))"

text \<open>\<^verbatim>\<open>np.polyval\<close> (highest power first) and \<^verbatim>\<open>compute_scale_array\<close>.\<close>

definition np_polyval :: "real list \<Rightarrow> real \<Rightarrow> real" where
  "np_polyval p x = foldl (\<lambda>acc c. acc * x + c) 0 p"

definition compute_scale_array :: "real list \<Rightarrow> real list \<Rightarrow> real list" where
  "compute_scale_array ps wave =
     (let n = length ps;
          rescale = map (\<lambda>k. 10 ^ (k + 1)) [0..<n];
          p = rev (map2 (/) ps rescale)
      in map (\<lambda>w. np_polyval p ((w - 10000) / 1000)) wave)"

text \<open>
  Modelled from the spec: \<^verbatim>\<open>utils.fill_masked_covar\<close>, which \<^verbatim>\<open>xfit_at_z\<close> calls and
  \<^verbatim>\<open>utils.py\<close> does not define. The spec has the rows that the \<^verbatim>\<open>oktemp\<close> mask dropped
  ``re-expanded to full size afterward with zero coefficients'' and the covariance ``square of
  that size'': the reduced matrix is written at the positions the mask keeps, zeros elsewhere.
\<close>

definition fill_masked_covar :: "matrix \<Rightarrow> bool list \<Rightarrow> error + matrix" where
  "fill_masked_covar covar msk =
     (let n = length msk; k = count_true msk in
      if length covar \<noteq> k \<or> (\<exists>row\<in>set covar. length row \<noteq> k) then Inl ValueError
      else Inr (map (\<lambda>i. map (\<lambda>j.
             if msk ! i \<and> msk ! j
             then covar ! count_true (take i msk) ! count_true (take j msk) else 0)
             [0..<n]) [0..<n]))"

section \<open>The fit at one redshift: \<^verbatim>\<open>xfit_at_z\<close>\<close>

text \<open>
  The external collaborators of the fit: the absorption model of eazy-py (\<^verbatim>\<open>IGM\<close>,
  \<^verbatim>\<open>None\<close> when the import failed), the instrument projector
  \<^verbatim>\<open>beam.compute_model\<close> (exposure index, thumbnail name if the template has one,
  spectrum), the filter integration
  \<^verbatim>\<open>templates[key].zscale(z, scalar=1).integrate_filter(filt)\<close>, the three solvers of
  SciPy and NumPy, and the matrix inverse \<^verbatim>\<open>np.matrix(...).I\<close>.
\<close>

record externals =
  IGM :: "(real \<Rightarrow> real list \<Rightarrow> real list) option"
  compute_model :: "nat \<Rightarrow> string option \<Rightarrow> real list \<times> real list \<Rightarrow> real list"
  integrate_filter :: "template \<Rightarrow> real \<Rightarrow> photfilter \<Rightarrow> real"
  nnls :: "matrix \<Rightarrow> real list \<Rightarrow> error + real list"
  lstsq :: "matrix \<Rightarrow> real list \<Rightarrow> error + real list"
  lsq_linear :: "matrix \<Rightarrow> real list \<Rightarrow> real option list \<Rightarrow> real option list \<Rightarrow> error + real list"
  matinv :: "matrix \<Rightarrow> error + matrix"

definition COEFF_SCALE :: real where
  "COEFF_SCALE = 1 / 10 ^ 19"

definition IGM_MINZ :: real where
  "IGM_MINZ = 4"

text \<open>
  \<^verbatim>\<open>A = np.zeros((self.N+NTEMP, self.Nmask))\<close> and, when the background is fitted,
  \<^verbatim>\<open>A[:self.N,:self.Nmask-self.Nphot] = self.A_bgm\<close>.
\<close>

definition init_A :: "group \<Rightarrow> nat \<Rightarrow> bool \<Rightarrow> error + matrix" where
  "init_A g NTEMP fit_background =
     (if fit_background then
        let k = slice_stop (Nmask g) (int (Nmask g) - int (Nphot g)) in
        ebind (np_broadcast2 (N g) k (A_bgm g)) (\<lambda>B.
          Inr (map (\<lambda>row. row @ zeros (Nmask g - k)) B @ zeros2 NTEMP (Nmask g)))
      else Inr (zeros2 (N g + NTEMP) (Nmask g)))"

text \<open>The redshifted spectrum \<^verbatim>\<open>s = [ti.wave*(1+z), ti.flux/(1+z)*igmz]\<close>.\<close>

definition template_spectrum ::
  "externals \<Rightarrow> real \<Rightarrow> template \<Rightarrow> error + (real list \<times> real list)" where
  "template_spectrum ext z ti =
     (let w = map (\<lambda>x. x * (1 + z)) (t_wave ti);
          fl = (if z > IGM_MINZ then
                  (case IGM ext of
                     None \<Rightarrow> Inr (map (\<lambda>x. x / (1 + z) * 1) (t_flux ti))
                   | Some full_IGM \<Rightarrow>
                       np_binop (\<lambda>x i. x / (1 + z) * i) (t_flux ti) (full_IGM z w))
                else Inr (map (\<lambda>x. x / (1 + z) * 1) (t_flux ti)))
      in ebind fl (\<lambda>f.
           if t_flux ti \<noteq> [] \<and> 1 + z = 0 then Inl NonFinite else Inr (w, f)))"

text \<open>\<^verbatim>\<open>clip = mask_i.sum(axis=0) > 0\<close>: the columns with a valid pixel.\<close>

definition beam_clip :: "beam \<Rightarrow> bool list" where
  "beam_clip b =
     (let (ny, nx) = b_sh b
      in map (\<lambda>c. list_ex (\<lambda>r. b_fit_mask b ! (r * nx + c)) [0..<ny]) [0..<nx])"

text \<open>The body of the loop over the exposures, for the row of template \<open>t\<close>.\<close>

definition template_beam ::
  "externals \<Rightarrow> group \<Rightarrow> string \<Rightarrow> real list \<times> real list \<Rightarrow> nat \<times> beam \<Rightarrow> real list
     \<Rightarrow> error + real list" where
  "template_beam ext g t s jb row =
     (let j = fst jb; b = snd jb; (ny, nx) = b_sh b in
      if length (b_fit_mask b) \<noteq> ny * nx then Inl ValueError
      else
        let clip = beam_clip b in
        if count_true clip = 0 then Inr row
        else ebind (np_mask (b_wave b) clip) (\<lambda>lam_beam.
          if fst s = [] then Inl ValueError
          else if np_min (fst s) > np_max lam_beam \<or> np_max (fst s) < np_min lam_beam
          then Inr row
          else if j \<ge> length (mslices g) then Inl IndexError
          else ebind (np_mask (compute_model ext j (if t \<in> set (b_thumbs b) then Some t else None) s)
                        (b_fit_mask b)) (\<lambda>sel.
                 set_idx row (mslices g ! j) (map (\<lambda>x. x * COEFF_SCALE) sel))))"

definition template_row :: "externals \<Rightarrow> group \<Rightarrow> real \<Rightarrow> string \<times> template \<Rightarrow> error + real list" where
  "template_row ext g z tt =
     ebind (template_spectrum ext z (snd tt)) (\<lambda>s.
       efold (template_beam ext g (fst tt) s) (zip [0..<length (beams g)] (beams g))
         (zeros (Nmask g)))"

text \<open>\<^verbatim>\<open>_interpolate_photometry\<close>: the templates through the photometric filters.\<close>

definition interpolate_photometry ::
  "externals \<Rightarrow> group \<Rightarrow> real \<Rightarrow> (string \<times> template) list \<Rightarrow> error + matrix" where
  "interpolate_photometry ext g z templates =
     (let NTEMP = length templates;
          nf = length (photom_flam g);
          msk = map (\<lambda>e. e > 0) (photom_eflam g);
          fast = (case tempfilt g of None \<Rightarrow> None
                  | Some tf \<Rightarrow> if tf_NTEMP tf = NTEMP then Some tf else None)
      in case fast of
           Some tf \<Rightarrow>
             ebind (np_broadcast2 NTEMP nf (tf_call tf z)) (\<lambda>T.
             ebind (np_broadcast nf (photom_pivot g)) (\<lambda>pv.
               if length msk \<noteq> nf then Inl IndexError
               else emap (\<lambda>row. np_mask
                      (map2 (\<lambda>x p. if p = 0 then 0 else x * (3 * 10 ^ 18 / p ^ 2 * (1 + z))) row pv)
                      msk) (zeros2 (N g) nf @ T)))
         | None \<Rightarrow>
             if templates \<noteq> [] \<and>
                (length (photom_filters g) > nf \<or> length (photom_filters g) > length (photom_pivot g))
             then Inl IndexError
             else if length msk \<noteq> nf then Inl IndexError
             else if templates \<noteq> [] \<and> 0 \<in> set (take (length (photom_filters g)) (photom_pivot g))
             then Inl NonFinite
             else emap (\<lambda>row. np_mask row msk)
                    (zeros2 (N g) nf @
                     map (\<lambda>tt. map2 (\<lambda>filt p. integrate_filter ext (snd tt) z filt * (3 * 10 ^ 18) / p ^ 2)
                                   (photom_filters g) (photom_pivot g)
                                 @ zeros (nf - length (photom_filters g))) templates))"

text \<open>\<^verbatim>\<open>A[:,-self.Nphot:] = A_phot*COEFF_SCALE\<close>.\<close>

definition set_phot_cols :: "nat \<Rightarrow> nat \<Rightarrow> matrix \<Rightarrow> matrix \<Rightarrow> error + matrix" where
  "set_phot_cols ncols nphot A P =
     (let k = min nphot ncols in
      ebind (np_broadcast2 (length A) k P) (\<lambda>P'.
        Inr (map2 (\<lambda>row prow. take (ncols - k) row @ prow) A P')))"

text \<open>
  The photometric rescaling: \<^verbatim>\<open>Ax *= scale\<close>, divided back out of the first
  \<^verbatim>\<open>self.N\<close> rows when the background is fitted.
\<close>

definition apply_pscale :: "group \<Rightarrow> bool \<Rightarrow> nat \<Rightarrow> matrix \<Rightarrow> error + matrix" where
  "apply_pscale g fit_background ncx Ax =
     (case pscale g of
        None \<Rightarrow> Inr Ax
      | Some ps \<Rightarrow>
          ebind (np_mask (wavef g) (fit_mask g)) (\<lambda>wm.
            let scale0 = compute_scale_array ps wm;
                scale = (if Nphot g > 0 then set_tail (Nphot g) 1 scale0 else scale0)
            in if \<not> (ncx = length scale \<or> length scale = 1) then Inl ValueError
               else
                 let Ax1 = map (\<lambda>row. row_op (*) row scale) Ax in
                 if fit_background then
                   (if N g > length Ax1 then Inl IndexError
                    else if N g > 0 \<and> ncx > 0 \<and> 0 \<in> set scale then Inl NonFinite
                    else Inr (map (\<lambda>row. row_op (/) row scale) (take (N g) Ax1) @ drop (N g) Ax1))
                 else Inr Ax1))"

text \<open>
  The pedestal, and the masked data array
  \<^verbatim>\<open>((self.scif+pedestal*self.is_spec)*self.sivarf)[self.fit_mask]\<close>.
\<close>

definition xfit_pedestal :: "string \<Rightarrow> bool \<Rightarrow> real" where
  "xfit_pedestal fitter fit_background =
     (if fit_background then (if fitter \<in> {''nnls'', ''lstsq''} then 4 / 100 else 0) else 0)"

definition xfit_data :: "group \<Rightarrow> real \<Rightarrow> error + real list" where
  "xfit_data g pedestal =
     ebind (np_binop (+) (scif g)
              (case is_spec g of
                 SpecScalar c \<Rightarrow> [pedestal * c]
               | SpecMask m \<Rightarrow> map (\<lambda>b. pedestal * (if b then 1 else 0)) m)) (\<lambda>t1.
     ebind (np_binop (*) t1 (sivarf g)) (\<lambda>t2.
       np_mask t2 (fit_mask g)))"

text \<open>
  Everything up to the solver: the design matrix \<^verbatim>\<open>A\<close>, the mask \<^verbatim>\<open>oktemp\<close> of its
  non-zero rows, the weighted matrix \<^verbatim>\<open>Ax\<close> with its number of columns, the masked
  \<^verbatim>\<open>sivarf\<close>, the data vector, the pedestal and the bounds of the bounded solver
  (\<open>None\<close> is an infinite bound).
\<close>

record design =
  d_A :: matrix
  d_oktemp :: "bool list"
  d_Ax :: matrix
  d_ncols :: nat
  d_sv :: "real list"
  d_data :: "real list"
  d_pedestal :: real
  d_lower :: "real option list"
  d_upper :: "real option list"

definition xfit_design ::
  "externals \<Rightarrow> group \<Rightarrow> real \<Rightarrow> (string \<times> template) list \<Rightarrow> string \<Rightarrow> bool \<Rightarrow> error + design" where
  "xfit_design ext g z templates fitter fit_background =
     (let NTEMP = length templates;
          lower_bound = replicate (N g) (Some (- (5 / 100)))
                        @ map (\<lambda>tt. if take 4 (fst tt) = ''line'' then None else Some 0) templates;
          upper_bound = replicate (N g) (Some (5 / 100)) @ replicate NTEMP None;
          pedestal = xfit_pedestal fitter fit_background
      in
      ebind (init_A g NTEMP fit_background) (\<lambda>A0.
      ebind (emap (template_row ext g z) templates) (\<lambda>trows.
      ebind (if Nphot g > 0
             then ebind (interpolate_photometry ext g z templates) (\<lambda>P.
                    set_phot_cols (Nmask g) (Nphot g) (take (N g) A0 @ trows)
                      (map (map (\<lambda>x. x * COEFF_SCALE)) P))
             else Inr (take (N g) A0 @ trows)) (\<lambda>A.
      let oktemp = map (\<lambda>row. sum_list row \<noteq> 0) A in
      ebind (np_mask (sivarf g) (fit_mask g)) (\<lambda>sv.
      ebind (np_mask A oktemp) (\<lambda>Aok.
      ebind (np_rows_binop (*) (Nmask g) Aok sv) (\<lambda>Ax0.
      let ncx = bc_cols (Nmask g) sv in
      ebind (apply_pscale g fit_background ncx Ax0) (\<lambda>Ax.
      ebind (xfit_data g pedestal) (\<lambda>data.
        Inr \<lparr>d_A = A, d_oktemp = oktemp, d_Ax = Ax, d_ncols = ncx, d_sv = sv, d_data = data,
             d_pedestal = pedestal, d_lower = lower_bound, d_upper = upper_bound\<rparr>)))))))))"

text \<open>The minimisation: \<^verbatim>\<open>nnls\<close>, \<^verbatim>\<open>lstsq\<close>, or bounded least squares for any other name.\<close>

definition xfit_solve :: "externals \<Rightarrow> string \<Rightarrow> design \<Rightarrow> error + real list" where
  "xfit_solve ext fitter d =
     (let AxT = np_T (d_ncols d) (d_Ax d) in
      if fitter = ''nnls'' then nnls ext AxT (d_data d)
      else if fitter = ''lstsq'' then lstsq ext AxT (d_data d)
      else ebind (np_mask (d_lower d) (d_oktemp d)) (\<lambda>lb.
           ebind (np_mask (d_upper d) (d_oktemp d)) (\<lambda>ub.
             lsq_linear ext AxT (d_data d) lb ub)))"

text \<open>
  The background array and the subtraction of the pedestal from
  \<^verbatim>\<open>coeffs_i[:self.N]\<close>. The result is the updated \<^verbatim>\<open>coeffs_i\<close> and
  \<^verbatim>\<open>background\<close>.
\<close>

definition xfit_background ::
  "group \<Rightarrow> bool \<Rightarrow> design \<Rightarrow> real list \<Rightarrow> error + (real list \<times> real list)" where
  "xfit_background g fit_background d c0 =
     (if fit_background then
        ebind (np_dot (take (N g) c0) (take (N g) (d_A d)) (Nmask g)) (\<lambda>b0.
          let b1 = map (\<lambda>x. x - d_pedestal d) b0;
              background = (if Nphot g > 0 then set_tail (Nphot g) 0 b1 else b1);
              c1 = map (\<lambda>x. x - d_pedestal d) (take (N g) c0) @ drop (N g) c0
          in Inr (c1, background))
      else
        ebind (np_mask (scif g) (fit_mask g)) (\<lambda>sm. Inr (c0, map (\<lambda>x. x * 0) sm)))"

text \<open>The full model, the residuals and chi-squared.\<close>

definition xfit_chi2 ::
  "group \<Rightarrow> bool \<Rightarrow> design \<Rightarrow> real list \<Rightarrow> real list \<Rightarrow> error + real" where
  "xfit_chi2 g fit_background d coeffs_i background =
     ebind (if fit_background then
              ebind (np_rows_div (d_ncols d) (drop (N g) (d_Ax d)) (d_sv d)) (\<lambda>M.
                np_dot (drop (N g) coeffs_i) M (bc_cols (d_ncols d) (d_sv d)))
            else
              ebind (np_rows_div (d_ncols d) (d_Ax d) (d_sv d)) (\<lambda>M.
                np_dot coeffs_i M (bc_cols (d_ncols d) (d_sv d))))
       (\<lambda>model.
          ebind (np_mask (scif g) (fit_mask g)) (\<lambda>sm.
          ebind (np_binop (-) sm model) (\<lambda>r0.
          ebind (np_binop (-) r0 background) (\<lambda>resid.
          ebind (np_binop (\<lambda>r s. r ^ 2 * s ^ 2) resid (d_sv d)) (\<lambda>q.
          ebind (np_mask (weightf g) (fit_mask g)) (\<lambda>wm.
          ebind (np_binop (*) q wm) (\<lambda>terms.
            Inr (sum_list terms))))))))"

text \<open>
  The body of the \<^verbatim>\<open>try\<close> block: the inverse of \<^verbatim>\<open>AxT.T \<cdot> AxT\<close>, expanded to full
  size, and for \<^verbatim>\<open>get_uncertainties == 2\<close> the same with the templates of zero
  coefficient masked.
\<close>

definition covar_try ::
  "externals \<Rightarrow> design \<Rightarrow> nat \<Rightarrow> real list \<Rightarrow> error + (matrix \<times> real list)" where
  "covar_try ext d get_uncertainties coeffs_i =
     ebind (matinv ext (gram (d_Ax d))) (\<lambda>covar_i.
     ebind (fill_masked_covar covar_i (d_oktemp d)) (\<lambda>covar.
     ebind (np_sqrt (diagonal covar)) (\<lambda>covard.
       if get_uncertainties = 2 then
         (let nonzero = map (\<lambda>c. c \<noteq> 0) coeffs_i in
          if count_true nonzero > 0 then
            ebind (np_mask (d_Ax d) nonzero) (\<lambda>Axm.
            ebind (matinv ext (gram Axm)) (\<lambda>mcovar_i.
            ebind (fill_masked_covar mcovar_i nonzero) (\<lambda>m1.
            ebind (fill_masked_covar m1 (d_oktemp d)) (\<lambda>mcovar.
            ebind (np_sqrt (diagonal mcovar)) (\<lambda>mcovard.
              Inr (mcovar, mcovard))))))
          else Inr (covar, covard))
       else Inr (covar, covard))))"

text \<open>
  The bare \<^verbatim>\<open>except:\<close> catches every exception and puts zeros in place of the
  covariance. A NaN is a value, not an exception, and is not caught.
\<close>

definition xfit_covar ::
  "externals \<Rightarrow> group \<Rightarrow> nat \<Rightarrow> design \<Rightarrow> nat \<Rightarrow> real list \<Rightarrow> error + (matrix \<times> real list)" where
  "xfit_covar ext g NTEMP d get_uncertainties coeffs_i =
     (if get_uncertainties \<noteq> 0 then
        (case covar_try ext d get_uncertainties coeffs_i of
           Inr cc \<Rightarrow> Inr cc
         | Inl NonFinite \<Rightarrow> Inl NonFinite
         | Inl e \<Rightarrow> Inr (zeros2 (N g + NTEMP) (N g + NTEMP), zeros (N g + NTEMP)))
      else Inr (zeros2 (N g + NTEMP) (N g + NTEMP), zeros (N g + NTEMP)))"

text \<open>
  What \<^verbatim>\<open>xfit_at_z\<close> returns: the design matrix and the data when
  \<^verbatim>\<open>get_design_matrix\<close> is set, otherwise \<^verbatim>\<open>chi2, coeffs, coeffs_err, covar\<close>.
\<close>

datatype xfit_out = DesignMatrix matrix "real list" | FitOut real "real list" "real list" matrix

text \<open>
  \<^verbatim>\<open>xfit_at_z(z, templates, fitter, fit_background, get_uncertainties,
  get_design_matrix)\<close>. \<^verbatim>\<open>get_uncertainties\<close> is \<^verbatim>\<open>False\<close>, \<^verbatim>\<open>True\<close> or 2, here
  0, 1 or 2. The assignment to \<^verbatim>\<open>self.photom_model\<close>, a copy of the model at the
  photometric points kept for inspection, is the only effect on the group and is left out.
\<close>

definition xfit_at_z ::
  "externals \<Rightarrow> group \<Rightarrow> real \<Rightarrow> (string \<times> template) list \<Rightarrow> string \<Rightarrow> bool \<Rightarrow> nat \<Rightarrow> bool
     \<Rightarrow> error + xfit_out" where
  "xfit_at_z ext g z templates fitter fit_background get_uncertainties get_design_matrix =
     (let NTEMP = length templates in
      ebind (xfit_design ext g z templates fitter fit_background) (\<lambda>d.
        if get_design_matrix then Inr (DesignMatrix (np_T (d_ncols d) (d_Ax d)) (d_data d))
        else
          ebind (xfit_solve ext fitter d) (\<lambda>c0.
          ebind (xfit_background g fit_background d c0) (\<lambda>(coeffs_i, background).
          ebind (xfit_chi2 g fit_background d coeffs_i background) (\<lambda>chi2.
          ebind (xfit_covar ext g NTEMP d get_uncertainties coeffs_i) (\<lambda>(covar, covard).
          ebind (mask_assign (zeros (N g + NTEMP)) (d_oktemp d) coeffs_i) (\<lambda>coeffs.
            Inr (FitOut chi2
                   (scale_from (N g) COEFF_SCALE coeffs)
                   (scale_from (N g) COEFF_SCALE covard)
                   (scale_block (N g) (COEFF_SCALE ^ 2) covar)))))))))"

text \<open>
  The data vector in the words of the specification: the science array with the pedestal
  \<open>p\<close> added at the spectral positions, weighted by \<^verbatim>\<open>sivarf\<close>, at the valid
  positions. \<open>arrays_aligned\<close> says that the concatenated arrays have one length, which
  the spec's data model requires.
\<close>

definition spec_data :: "group \<Rightarrow> real \<Rightarrow> real list" where
  "spec_data g p =
     map (\<lambda>i. (scif g ! i + p * is_spec_at (is_spec g) i) * sivarf g ! i)
       (filter (\<lambda>i. fit_mask g ! i) [0..<length (scif g)])"

definition arrays_aligned :: "group \<Rightarrow> bool" where
  "arrays_aligned g \<longleftrightarrow>
     length (sivarf g) = length (scif g) \<and> length (fit_mask g) = length (scif g) \<and>
     (case is_spec g of SpecScalar c \<Rightarrow> True | SpecMask m \<Rightarrow> length m = length (scif g))"

section \<open>Concrete inputs\<close>

text \<open>
  Small solvers for the concrete inputs. \<open>toy_matinv\<close> inverts a matrix of size one or two
  and raises \<^verbatim>\<open>LinAlgError\<close> on a zero determinant. \<open>toy_lstsq\<close> solves the normal
  equations with it. \<open>toy_nnls\<close> returns the least-squares solution when it is
  non-negative, and otherwise the best non-negative multiple of the first column with zeros
  for the other columns; on the inputs used below this is the non-negative minimiser.
\<close>

definition toy_matinv :: "matrix \<Rightarrow> error + matrix" where
  "toy_matinv M =
     (case M of
        [[a]] \<Rightarrow> if a = 0 then Inl LinAlgError else Inr [[1 / a]]
      | [[a, b], [c, d]] \<Rightarrow>
          if a * d - b * c = 0 then Inl LinAlgError
          else Inr [[d / (a * d - b * c), - b / (a * d - b * c)],
                    [- c / (a * d - b * c), a / (a * d - b * c)]]
      | _ \<Rightarrow> Inl LinAlgError)"

definition toy_lstsq :: "matrix \<Rightarrow> real list \<Rightarrow> error + real list" where
  "toy_lstsq AxT data =
     (case AxT of
        [] \<Rightarrow> Inl ValueError
      | r # rs \<Rightarrow>
          let Ax = np_T (length r) AxT;
              rhs = map (\<lambda>col. sum_list (map2 (*) col data)) Ax
          in ebind (toy_matinv (gram Ax)) (\<lambda>Gi.
               Inr (map (\<lambda>row. sum_list (map2 (*) row rhs)) Gi)))"

definition toy_first_column :: "matrix \<Rightarrow> real list \<Rightarrow> error + real list" where
  "toy_first_column AxT data =
     (case AxT of
        [] \<Rightarrow> Inl ValueError
      | r # rs \<Rightarrow>
          if r = [] then Inr []
          else
            let a = map hd AxT;
                c = max 0 (sum_list (map2 (*) a data) / sum_list (map2 (*) a a))
            in Inr (c # replicate (length r - 1) 0))"

definition toy_nnls :: "matrix \<Rightarrow> real list \<Rightarrow> error + real list" where
  "toy_nnls AxT data =
     (case toy_lstsq AxT data of
        Inr c \<Rightarrow> if list_all (\<lambda>x. 0 \<le> x) c then Inr c else toy_first_column AxT data
      | Inl e \<Rightarrow> toy_first_column AxT data)"

text \<open>
  The projector of the toy exposure puts the flux \<open>10\<^sup>1\<^sup>9\<close>, \<open>2\<cdot>10\<^sup>1\<^sup>9\<close> on its two
  valid pixels; the filter integration is constant.
\<close>

definition toy_ext :: externals where
  "toy_ext =
     \<lparr>IGM = None,
      compute_model = (\<lambda>j thumb s. [10 ^ 19, 2 * 10 ^ 19, 0]),
      integrate_filter = (\<lambda>ti z filt. 1),
      nnls = toy_nnls, lstsq = toy_lstsq,
      lsq_linear = (\<lambda>AxT data lb ub. toy_nnls AxT data),
      matinv = toy_matinv\<rparr>"

definition toy_template :: template where
  "toy_template = \<lparr>t_wave = [10000, 14000], t_flux = [1, 1]\<rparr>"

text \<open>
  A group whose single exposure has no valid pixel, with one photometric point attached
  (flux \<open>-1\<close>, uncertainty 1): the state that \<^verbatim>\<open>set_photometry\<close> leaves.
\<close>

definition phot_only_group :: group where
  "phot_only_group =
     \<lparr>N = 1, Nphot = 1, Nmask = 1, DoF = 1,
      scif = [0, - 1], sivarf = [1, 1], weightf = [1, 1],
      fit_mask = [False, True], wavef = [12000, 5500],
      is_spec = SpecMask [True, False], A_bgm = [[]],
      beams = [\<lparr>b_fit_mask = [False], b_sh = (1, 1), b_wave = [12000], b_thumbs = []\<rparr>],
      mslices = [None], pscale = None,
      photom_flam = [- 1], photom_eflam = [1], photom_filters = [PhotFilter 5500],
      photom_pivot = [5500], tempfilt = None\<rparr>"

text \<open>The design of the toy group with one template and the background, at redshift 0.\<close>

definition toy_design :: design where
  "toy_design =
     \<lparr>d_A = [[1, 1], [1, 2]], d_oktemp = [True, True],
      d_Ax = [[1, 1], [1, 2]], d_ncols = 2, d_sv = [1, 1], d_data = [26 / 25, 51 / 25],
      d_pedestal = 1 / 25, d_lower = [Some (- (1 / 20)), Some 0],
      d_upper = [Some (1 / 20), None]\<rparr>"

text \<open>The design of the toy group with two identical templates and no background.\<close>

definition twin_design :: design where
  "twin_design =
     \<lparr>d_A = [[0, 0], [1, 2], [1, 2]], d_oktemp = [False, True, True],
      d_Ax = [[1, 2], [1, 2]], d_ncols = 2, d_sv = [1, 1], d_data = [1, 2],
      d_pedestal = 0, d_lower = [Some (- (1 / 20)), Some 0, Some 0],
      d_upper = [Some (1 / 20), None, None]\<rparr>"

section \<open>The posterior: \<^verbatim>\<open>_parse_zfit_output\<close>\<close>

text \<open>\<^verbatim>\<open>np.arange(start, stop, step)\<close> on floats, and \<^verbatim>\<open>utils.log_zgrid\<close>.\<close>

definition np_arange :: "real \<Rightarrow> real \<Rightarrow> real \<Rightarrow> error + real list" where
  "np_arange start stop step =
     (if step = 0 then Inl ValueError
      else Inr (map (\<lambda>i. start + real i * step) [0..<nat \<lceil>(stop - start) / step\<rceil>]))"

text \<open>
  The logarithm of a number that is not positive is a NaN or an infinity, on which
  \<^verbatim>\<open>np.arange\<close> raises.
\<close>

definition log_zgrid :: "real list \<Rightarrow> real \<Rightarrow> error + real list" where
  "log_zgrid zr dz =
     (if length zr < 2 then Inl IndexError
      else if 1 + zr ! 0 \<le> 0 \<or> 1 + zr ! 1 \<le> 0 then Inl ValueError
      else ebind (np_arange (ln (1 + zr ! 0)) (ln (1 + zr ! 1)) dz) (\<lambda>a.
             Inr (map (\<lambda>v. exp v - 1) a)))"

text \<open>\<^verbatim>\<open>np.trapz(y, x)\<close>: \<^verbatim>\<open>(diff(x) * (y[1:] + y[:-1]) / 2).sum()\<close>.\<close>

definition np_diff :: "real list \<Rightarrow> real list" where
  "np_diff x = map2 (\<lambda>a b. b - a) (butlast x) (tl x)"

definition np_trapz :: "real list \<Rightarrow> real list \<Rightarrow> error + real" where
  "np_trapz y x =
     ebind (np_binop (\<lambda>d s. d * s / 2) (np_diff x) (map2 (+) (tl y) (butlast y))) (\<lambda>t.
       Inr (sum_list t))"

text \<open>
  \<^verbatim>\<open>np.gradient(f)\<close> with unit spacing: one-sided differences at the two ends, central
  differences inside; it raises on fewer than two elements.
\<close>

definition np_gradient :: "real list \<Rightarrow> error + real list" where
  "np_gradient f =
     (let n = length f in
      if n < 2 then Inl ValueError
      else Inr (map (\<lambda>i. if i = 0 then f ! 1 - f ! 0
                          else if i = n - 1 then f ! (n - 1) - f ! (n - 2)
                          else (f ! (i + 1) - f ! (i - 1)) / 2) [0..<n]))"

primrec cumsum_from :: "real \<Rightarrow> real list \<Rightarrow> real list" where
  "cumsum_from a [] = []"
| "cumsum_from a (x # xs) = (a + x) # cumsum_from (a + x) xs"

definition np_cumsum :: "real list \<Rightarrow> real list" where
  "np_cumsum xs = cumsum_from 0 xs"

text \<open>
  \<^verbatim>\<open>np.interp(x, xp, fp)\<close> at one point, for sample points \<^verbatim>\<open>xp\<close> in increasing
  order as NumPy requires: \<^verbatim>\<open>fp[0]\<close> to the left of the samples, \<^verbatim>\<open>fp[-1]\<close> to the
  right, and inside, with \<open>j\<close> the last index such that \<open>xp[j] \<le> x\<close>, the value
  \<^verbatim>\<open>slope*(x - xp[j]) + fp[j]\<close>.
\<close>

definition np_interp1 :: "real \<Rightarrow> real list \<Rightarrow> real list \<Rightarrow> real" where
  "np_interp1 x xp fp =
     (if x < hd xp then hd fp
      else if x > last xp then last fp
      else
        let j = length (filter (\<lambda>v. v \<le> x) xp) - 1 in
        if j = length xp - 1 then fp ! j
        else if xp ! j = x then fp ! j
        else (fp ! (j + 1) - fp ! j) / (xp ! (j + 1) - xp ! j) * (x - xp ! j) + fp ! j)"

definition np_interp :: "real list \<Rightarrow> real list \<Rightarrow> real list \<Rightarrow> error + real list" where
  "np_interp xs xp fp =
     (if xp = [] \<or> length xp \<noteq> length fp then Inl ValueError
      else Inr (map (\<lambda>x. np_interp1 x xp fp) xs))"

text \<open>\<^verbatim>\<open>np.argmin\<close> and \<^verbatim>\<open>np.argmax\<close>: the first index of the extremum.\<close>

definition np_argmin :: "real list \<Rightarrow> nat" where
  "np_argmin xs = length (takeWhile (\<lambda>v. v \<noteq> np_min xs) xs)"

definition np_argmax :: "real list \<Rightarrow> nat" where
  "np_argmax xs = length (takeWhile (\<lambda>v. v \<noteq> np_max xs) xs)"

text \<open>The loss \<^verbatim>\<open>_loss(dz, gamma)\<close>.\<close>

definition loss :: "real \<Rightarrow> real \<Rightarrow> real" where
  "loss dz gamma = 1 - 1 / (1 + (dz / gamma) ^ 2)"

text \<open>
  The external collaborators of the posterior and of the grid search: the Akima interpolator
  of SciPy, given the grid and the density whose logarithm it interpolates, as the function
  \<^verbatim>\<open>spl\<close> whose value is \<open>None\<close> where it is not finite;
  \<^verbatim>\<open>polyfit(x, y, 2)\<close> of NumPy, with the coefficient of the highest power first; the
  peak finder \<^verbatim>\<open>peakutils.indexes(chi2_rev, thres=0.4, min_dist=8)\<close>; and the two template
  providers \<^verbatim>\<open>utils.polynomial_templates(wpoly, order, line=False)\<close> and
  \<^verbatim>\<open>utils.load_templates(fwhm, stars, line_complexes, fsps_templates)\<close>, neither of which
  \<^verbatim>\<open>utils.py\<close> defines.
\<close>

record search_ext =
  akima :: "real list \<Rightarrow> real list \<Rightarrow> error + (real \<Rightarrow> real option)"
  polyfit2 :: "real list \<Rightarrow> real list \<Rightarrow> error + real list"
  peak_indexes :: "real list \<Rightarrow> nat list"
  polynomial_templates :: "nat \<Rightarrow> (string \<times> template) list"
  load_templates :: "bool \<Rightarrow> (string \<times> template) list"

text \<open>
  The density before it is normalised: \<^verbatim>\<open>exp(-0.5*(chi2 - chi2.min())/scl_nu)\<close>
  with \<^verbatim>\<open>scl_nu = chi2.min()/DoF\<close>, multiplied by the interpolated prior if there is
  one. A minimum of zero makes \<^verbatim>\<open>scl_nu\<close> zero (or a NaN) and the density a NaN at the
  minimum; with \<^verbatim>\<open>DoF = 0\<close> and a non-zero minimum \<^verbatim>\<open>scl_nu\<close> is infinite and
  the exponent is zero everywhere. The result is the density and the interpolated prior.
\<close>

definition zfit_raw_pdf ::
  "int \<Rightarrow> real list \<Rightarrow> real list \<Rightarrow> (real list \<times> real list) option
     \<Rightarrow> error + (real list \<times> real list option)" where
  "zfit_raw_pdf dof zgrid chi2 prior =
     (if chi2 = [] then Inl ValueError
      else if np_min chi2 = 0 then Inl NonFinite
      else
        let scl_nu = np_min chi2 / real_of_int dof;
            pdf0 = (if dof = 0 then map (\<lambda>c. 1) chi2
                    else map (\<lambda>c. exp (- (5 / 10) * (c - np_min chi2) / scl_nu)) chi2)
        in case prior of
             None \<Rightarrow> Inr (pdf0, None)
           | Some pr \<Rightarrow>
               ebind (np_interp zgrid (fst pr) (snd pr)) (\<lambda>ip.
               ebind (np_broadcast (length pdf0) ip) (\<lambda>ipb.
                 Inr (map2 (*) pdf0 ipb, Some ip))))"

text \<open>
  \<^verbatim>\<open>pdf /= np.trapz(pdf, fit['zgrid'])\<close>: a zero integral leaves infinities or NaNs.
\<close>

definition zfit_pdf ::
  "int \<Rightarrow> real list \<Rightarrow> real list \<Rightarrow> (real list \<times> real list) option
     \<Rightarrow> error + (real list \<times> real list option)" where
  "zfit_pdf dof zgrid chi2 prior =
     ebind (zfit_raw_pdf dof zgrid chi2 prior) (\<lambda>raw.
     ebind (np_trapz (fst raw) zgrid) (\<lambda>T.
       if T = 0 then Inl NonFinite
       else Inr (map (\<lambda>p. p / T) (fst raw), snd raw)))"

text \<open>
  The percentiles: the spline of the logarithm of the density on the fine grid, integrated
  to a cumulative distribution, which is inverted by interpolation at 2.5, 16, 50, 84 and
  97.5 per cent.
\<close>

definition zfit_percentiles :: "search_ext \<Rightarrow> real list \<Rightarrow> real list \<Rightarrow> error + real list" where
  "zfit_percentiles sx zgrid pdf =
     ebind (akima sx zgrid pdf) (\<lambda>spl.
       if zgrid = [] then Inl ValueError
       else
       ebind (log_zgrid [np_min zgrid, np_max zgrid] (1 / 10000)) (\<lambda>zfine.
         let zf = filter (\<lambda>z. spl z \<noteq> None) zfine;
             ef = map (\<lambda>z. exp (the (spl z))) zf
         in ebind (np_trapz ef zf) (\<lambda>norm.
            ebind (np_gradient zf) (\<lambda>dz.
              if norm = 0 then Inl NonFinite
              else
                let cdf = np_cumsum (map2 (\<lambda>e d. e * d / norm) ef dz)
                in np_interp [25 / 1000, 16 / 100, 50 / 100, 84 / 100, 975 / 1000] cdf zf))))"

text \<open>
  The vertex \<^verbatim>\<open>-c[1]/(2*c[0])\<close> of the parabola fitted through the point \<open>zi\<close> and
  its two neighbours when \<open>zi\<close> is inside the grid, otherwise the grid point itself.
\<close>

definition refine_extremum ::
  "search_ext \<Rightarrow> real list \<Rightarrow> real list \<Rightarrow> nat \<Rightarrow> error + real" where
  "refine_extremum sx zgrid ys zi =
     (if zi < length ys - 1 \<and> zi > 0 then
        ebind (polyfit2 sx (take 3 (drop (zi - 1) zgrid)) (take 3 (drop (zi - 1) ys))) (\<lambda>c.
          if length c < 2 then Inl IndexError
          else if c ! 0 = 0 then Inl NonFinite
          else Inr (- (c ! 1) / (2 * c ! 0)))
      else if zi < length zgrid then Inr (zgrid ! zi) else Inl IndexError)"

text \<open>What \<^verbatim>\<open>_parse_zfit_output\<close> adds to the table of the fit.\<close>

record posterior =
  p_pdf :: "real list"
  p_prior :: "real list option"
  p_percentiles :: "real list"
  p_risk :: "real list"
  p_z_risk :: real
  p_min_risk :: real
  p_z_map :: real

definition parse_zfit_output ::
  "search_ext \<Rightarrow> int \<Rightarrow> real list \<Rightarrow> real list \<Rightarrow> (real list \<times> real list) option
     \<Rightarrow> error + posterior" where
  "parse_zfit_output sx dof zgrid chi2 prior =
     ebind (zfit_pdf dof zgrid chi2 prior) (\<lambda>(pdf, ip).
     ebind (zfit_percentiles sx zgrid pdf) (\<lambda>pz.
     ebind (np_gradient zgrid) (\<lambda>dz.
       let gamma = 15 / 100 in
       if length pdf \<noteq> length zgrid then Inl ValueError
       else if - 1 \<in> set zgrid then Inl NonFinite
       else
         let risk = map (\<lambda>za. sum_list (map (\<lambda>(p, zb, d). p * loss ((za - zb) / (1 + zb)) gamma * d)
                                          (zip pdf (zip zgrid dz)))) zgrid
         in ebind (refine_extremum sx zgrid risk (np_argmin risk)) (\<lambda>z_risk.
            ebind (np_trapz (map2 (\<lambda>p zb. p * loss ((z_risk - zb) / (1 + zb)) gamma) pdf zgrid) zgrid)
              (\<lambda>min_risk.
            ebind (refine_extremum sx zgrid pdf (np_argmax pdf)) (\<lambda>z_map.
              Inr \<lparr>p_pdf = pdf, p_prior = ip, p_percentiles = pz, p_risk = risk,
                   p_z_risk = z_risk, p_min_risk = min_risk, p_z_map = z_map\<rparr>))))))"

section \<open>Verified properties\<close>

subsection \<open>Shapes of what \<^verbatim>\<open>xfit_at_z\<close> returns\<close>

lemma ebind_Inr: "ebind m f = Inr y \<longleftrightarrow> (\<exists>x. m = Inr x \<and> f x = Inr y)"
  by (cases m) (simp_all add: ebind_def)

lemma length_fill_mask: "length (fill_mask base m vs) = length base"
  by (induction base arbitrary: m vs) (auto split: list.splits bool.splits)

lemma mask_assign_length:
  "mask_assign base m vals = Inr c \<Longrightarrow> length c = length base \<and> length m = length base"
  by (auto simp: mask_assign_def ebind_Inr length_fill_mask split: if_splits)

lemma length_scale_from: "length (scale_from n c xs) = length xs"
  by (simp add: scale_from_def)

lemma length_scale_block: "length (scale_block n c M) = length M"
  by (simp add: scale_block_def)

lemma rows_scale_block:
  "\<forall>row\<in>set M. length row = k \<Longrightarrow> \<forall>row\<in>set (scale_block n c M). length row = k"
  by (auto simp: scale_block_def length_scale_from dest: in_set_takeD in_set_dropD)

lemma fill_masked_covar_shape:
  "fill_masked_covar cv msk = Inr M \<Longrightarrow>
   length M = length msk \<and> (\<forall>row\<in>set M. length row = length msk)"
  by (auto simp: fill_masked_covar_def Let_def split: if_splits)

lemma np_sqrt_length: "np_sqrt xs = Inr ys \<Longrightarrow> length ys = length xs"
  by (auto simp: np_sqrt_def split: if_splits)

lemma length_diagonal: "length (diagonal M) = length M"
  by (simp add: diagonal_def)

lemma covar_try_shape:
  assumes "covar_try ext d gu ci = Inr (cov, covd)"
  shows "length cov = length (d_oktemp d) \<and> (\<forall>row\<in>set cov. length row = length (d_oktemp d))
         \<and> length covd = length (d_oktemp d)"
proof -
  from assms obtain covar_i covar covard where
    a: "fill_masked_covar covar_i (d_oktemp d) = Inr covar"
    and b: "np_sqrt (diagonal covar) = Inr covard"
    and c: "(if gu = 2 then
         (let nonzero = map (\<lambda>c. c \<noteq> 0) ci in
          if count_true nonzero > 0 then
            ebind (np_mask (d_Ax d) nonzero) (\<lambda>Axm.
            ebind (matinv ext (gram Axm)) (\<lambda>mcovar_i.
            ebind (fill_masked_covar mcovar_i nonzero) (\<lambda>m1.
            ebind (fill_masked_covar m1 (d_oktemp d)) (\<lambda>mcovar.
            ebind (np_sqrt (diagonal mcovar)) (\<lambda>mcovard.
              Inr (mcovar, mcovard))))))
          else Inr (covar, covard))
       else Inr (covar, covard)) = Inr (cov, covd)"
    unfolding covar_try_def ebind_Inr by blast
  have first: "length covar = length (d_oktemp d) \<and>
      (\<forall>row\<in>set covar. length row = length (d_oktemp d)) \<and> length covard = length (d_oktemp d)"
    using fill_masked_covar_shape [OF a] np_sqrt_length [OF b] by (simp add: length_diagonal)
  show ?thesis
  proof (cases "gu = 2 \<and> count_true (map (\<lambda>c. c \<noteq> 0) ci) > 0")
    case False
    then have "cov = covar \<and> covd = covard" using c by (auto simp: Let_def split: if_splits)
    then show ?thesis using first by simp
  next
    case True
    then obtain m1 where
      m: "fill_masked_covar m1 (d_oktemp d) = Inr cov" and s: "np_sqrt (diagonal cov) = Inr covd"
      using c by (auto simp: Let_def ebind_Inr)
    show ?thesis
      using fill_masked_covar_shape [OF m] np_sqrt_length [OF s] by (simp add: length_diagonal)
  qed
qed

lemma xfit_covar_shape:
  assumes "xfit_covar ext g NTEMP d gu ci = Inr (cov, covd)"
    and "length (d_oktemp d) = N g + NTEMP"
  shows "length cov = N g + NTEMP \<and> (\<forall>row\<in>set cov. length row = N g + NTEMP)
         \<and> length covd = N g + NTEMP"
proof (cases "gu \<noteq> 0 \<and> (\<exists>cc. covar_try ext d gu ci = Inr cc)")
  case True
  then have "covar_try ext d gu ci = Inr (cov, covd)"
    using assms(1) by (auto simp: xfit_covar_def)
  from covar_try_shape [OF this] show ?thesis using assms(2) by simp
next
  case False
  then have "cov = zeros2 (N g + NTEMP) (N g + NTEMP) \<and> covd = zeros (N g + NTEMP)"
    using assms(1) by (auto simp: xfit_covar_def split: if_splits sum.splits error.splits)
  then show ?thesis by (simp add: zeros2_def zeros_def)
qed

text \<open>
  Claim C1, as amended. Whenever \<^verbatim>\<open>xfit_at_z\<close> returns a fit, for any templates,
  redshift, fitter, background flag and uncertainty setting, the coefficient array and the
  array of uncertainties have length \<^verbatim>\<open>self.N + NTEMP\<close>, with \<^verbatim>\<open>self.N\<close> the number
  of exposures whether or not the background is fitted, and the covariance is a square matrix
  of that size, whatever rows the \<^verbatim>\<open>oktemp\<close> mask dropped.
\<close>

theorem xfit_at_z_shapes:
  assumes "xfit_at_z ext g z templates fitter fit_background gu gdm =
             Inr (FitOut chi2 coeffs coeffs_err covar)"
  shows "length coeffs = N g + length templates \<and>
         length coeffs_err = N g + length templates \<and>
         length covar = N g + length templates \<and>
         (\<forall>row\<in>set covar. length row = N g + length templates)"
proof -
  from assms obtain d c0 ci bg chi cov covd cf where
    cv: "xfit_covar ext g (length templates) d gu ci = Inr (cov, covd)"
    and ma: "mask_assign (zeros (N g + length templates)) (d_oktemp d) ci = Inr cf"
    and res: "coeffs = scale_from (N g) COEFF_SCALE cf"
      "coeffs_err = scale_from (N g) COEFF_SCALE covd"
      "covar = scale_block (N g) (COEFF_SCALE ^ 2) cov"
    by (auto simp: xfit_at_z_def Let_def ebind_Inr split: if_splits)
  from mask_assign_length [OF ma] have
    l: "length cf = N g + length templates" "length (d_oktemp d) = N g + length templates"
    by (simp_all add: zeros_def)
  from xfit_covar_shape [OF cv l(2)] have
    s: "length cov = N g + length templates" "length covd = N g + length templates"
       "\<forall>row\<in>set cov. length row = N g + length templates"
    by simp_all
  from rows_scale_block [OF s(3)] have
    "\<forall>row\<in>set covar. length row = N g + length templates"
    using res(3) by simp
  then show ?thesis
    using l(1) res s(1,2) by (simp add: length_scale_from length_scale_block)
qed

subsection \<open>Photometry\<close>

lemma count_true_pos_iff: "0 < count_true (map fl_pos es) \<longleftrightarrow> (\<exists>e\<in>set es. fl_pos e)"
  by (simp add: count_true_def filter_map o_def filter_empty_conv)

lemma weighted_count_eq:
  "length w = length m \<Longrightarrow>
   weighted_count w m = Inr (sum_list (map2 (\<lambda>x b. x * (if b then 1 else 0)) w m))"
  by (simp add: weighted_count_def np_binop_def ebind_def)

lemma weighted_count_snoc_ones:
  assumes "length w = length m"
  shows "weighted_count (w @ replicate n 1) (m @ replicate n True) =
           Inr (sum_list (map2 (\<lambda>x b. x * (if b then 1 else 0)) w m) + real n)"
proof -
  have "sum_list (map2 (\<lambda>x b. x * (if b then 1 else 0)) (replicate n (1::real)) (replicate n True))
          = real n"
    by (induction n) simp_all
  then show ?thesis
    using assms by (simp add: weighted_count_eq)
qed

lemma DBL_bounds:
  "(2::real) ^ 1001 < DBL_OVER" "(2::real) ^ 500 < DBL_OVER" "DBL_UNDER < 1 / 2 ^ 1000"
  "1 < DBL_OVER" "DBL_UNDER < 1" "0 < DBL_UNDER" "0 < DBL_OVER"
  by (simp_all add: DBL_OVER_def DBL_UNDER_def)

lemma fl_range_id: "DBL_UNDER < x \<Longrightarrow> x < DBL_OVER \<Longrightarrow> fl_range x = Fin x"
  using DBL_bounds(6,7) by (simp add: fl_range_def)

lemma fl_range_small:
  "\<bar>x\<bar> < DBL_OVER \<Longrightarrow> \<exists>y. fl_range x = Fin y \<and> \<bar>y\<bar> \<le> \<bar>x\<bar>"
  by (auto simp: fl_range_def)

lemma in_range_entry:
  assumes "phot_in_range m e f"
  shows "fl_pos e \<and> is_fin f \<and> \<not> fl_neg e \<and>
         (\<exists>p. photom_err m e f = Fin p \<and> 0 < p \<and> is_fin (fl_div (Fin 1) (Fin p)) \<and>
              fl_add (fl_mul (Fin p) (Fin 0)) (Fin 1) = Fin 1)"
proof -
  from assms obtain ev fv where
    e: "e = Fin ev" and f: "f = Fin fv" and lo: "1 / 2 ^ 500 \<le> ev" and hi: "ev \<le> 2 ^ 500"
    and mf: "\<bar>m * fv\<bar> \<le> 2 ^ 500"
    by (auto simp: phot_in_range_def split: fl.splits)
  have evpos: "0 < ev" using lo by (smt (verit) divide_pos_pos zero_less_power)
  have sq_hi: "ev * ev \<le> 2 ^ 500 * 2 ^ 500"
    using hi evpos by (intro mult_mono) simp_all
  have sq_lo: "(1 / 2 ^ 500) * (1 / 2 ^ 500) \<le> ev * ev"
    using lo by (intro mult_mono) simp_all
  have p1000: "(2::real) ^ 500 * 2 ^ 500 = 2 ^ 1000" by (simp add: power_add [symmetric])
  have sq: "fl_range (ev * ev) = Fin (ev * ev)"
  proof -
    have "DBL_UNDER < ev * ev"
      using sq_lo DBL_bounds(3) p1000 by (simp add: power_add [symmetric])
    moreover have "ev * ev < DBL_OVER"
      using sq_hi DBL_bounds(1) p1000 by simp
    ultimately show ?thesis by (simp add: fl_range_id)
  qed
  from fl_range_small [of "m * fv"] mf DBL_bounds(2) obtain a where
    a: "fl_range (m * fv) = Fin a" and ab: "\<bar>a\<bar> \<le> 2 ^ 500"
    by fastforce
  have aa: "\<bar>a * a\<bar> \<le> 2 ^ 1000"
  proof -
    have "\<bar>a\<bar> * \<bar>a\<bar> \<le> 2 ^ 500 * 2 ^ 500" using ab by (intro mult_mono) simp_all
    then show ?thesis by (simp add: abs_mult p1000)
  qed
  from fl_range_small [of "a * a"] aa DBL_bounds(1) obtain b where
    b: "fl_range (a * a) = Fin b" and bb: "\<bar>b\<bar> \<le> \<bar>a * a\<bar>"
    by fastforce
  have b0: "0 \<le> b"
    using b by (auto simp: fl_range_def split: if_splits)
  have bhi: "b \<le> 2 ^ 1000" using bb aa by simp
  have sum_ok: "fl_range (ev * ev + b) = Fin (ev * ev + b)"
  proof (rule fl_range_id)
    show "DBL_UNDER < ev * ev + b"
      using sq_lo DBL_bounds(3) b0 by (simp add: power_add [symmetric])
    have "ev * ev + b \<le> 2 ^ 1000 + 2 ^ 1000" using sq_hi p1000 bhi by simp
    then show "ev * ev + b < DBL_OVER" using DBL_bounds(1) by simp
  qed
  define p where "p = sqrt (ev * ev + b)"
  have nonneg: "\<not> ev * ev + b < 0"
    using b0 by (simp add: not_less)
  have pe: "photom_err m e f = Fin p"
    using evpos nonneg by (simp add: photom_err_def e f sq a b sum_ok p_def)
  have "ev\<^sup>2 \<le> ev * ev + b" using b0 by (simp add: power2_eq_square)
  then have pge: "ev \<le> p" unfolding p_def by (rule real_le_rsqrt)
  then have ppos: "0 < p" using evpos by simp
  have "1 / p \<le> 1 / ev" using pge evpos by (simp add: frac_le)
  also have "1 / ev \<le> 2 ^ 500"
    using lo evpos by (simp add: field_simps)
  finally have inv_hi: "1 / p < DBL_OVER" using DBL_bounds(2) by simp
  have "\<bar>1 / p\<bar> < DBL_OVER" using inv_hi ppos by simp
  from fl_range_small [OF this] have fin_inv: "is_fin (fl_div (Fin 1) (Fin p))"
    using ppos by auto
  have w: "fl_add (fl_mul (Fin p) (Fin 0)) (Fin 1) = Fin 1"
    using DBL_bounds(4,5,6,7) by (simp add: fl_range_def)
  show ?thesis using evpos pe ppos fin_inv w by (simp add: e f)
qed

lemma in_range_lists:
  assumes "list_all2 (phot_in_range m) eflam flam"
  shows "map (\<lambda>p. fl_add (fl_mul p (Fin 0)) (Fin 1)) (map2 (photom_err m) eflam flam)
           = replicate (length eflam) (Fin 1) \<and>
         list_all is_fin (map (fl_div (Fin 1)) (map2 (photom_err m) eflam flam)) \<and>
         list_all is_fin flam \<and> map fl_pos eflam = replicate (length eflam) True"
  using assms
proof (induction rule: list_all2_induct)
  case Nil
  then show ?case by simp
next
  case (Cons e es f fs)
  from in_range_entry [OF Cons(1)] show ?case using Cons(3) by auto
qed

text \<open>
  Claim C9, as amended. When the lengths of the flux, uncertainty and filter arrays differ,
  \<^verbatim>\<open>set_photometry\<close> returns without extending the concatenated science, weight, mask
  and wavelength arrays, and \<^verbatim>\<open>Nmask\<close> and \<^verbatim>\<open>DoF\<close> keep their values. It returns
  \<^verbatim>\<open>False\<close> when photometry is not yet attached (or \<^verbatim>\<open>force\<close> is set) and at least
  one uncertainty is positive; on the two exits that come before the comparison of the
  lengths it returns \<^verbatim>\<open>True\<close>. When it returns \<^verbatim>\<open>True\<close> on a call without
  \<^verbatim>\<open>force\<close>, the group is as it was before the call, and the design matrix built from it
  is the one built before the call.
\<close>

theorem set_photometry_mismatch:
  assumes "length flam \<noteq> length eflam \<or> length flam \<noteq> length filters"
  shows "\<exists>g'. set_photometry flam eflam filters force tf min_err g =
            Inr (if (Nphot g = 0 \<or> force) \<and> (\<exists>e\<in>set eflam. fl_pos e)
                 then PyFalse else PyTrue, g') \<and>
          scif g' = scif g \<and> sivarf g' = sivarf g \<and> weightf g' = weightf g \<and>
          fit_mask g' = fit_mask g \<and> wavef g' = wavef g \<and>
          Nmask g' = Nmask g \<and> DoF g' = DoF g \<and>
          (\<not> force \<and> \<not> (Nphot g = 0 \<and> (\<exists>e\<in>set eflam. fl_pos e)) \<longrightarrow>
             g' = g \<and>
             xfit_design ext g' z templates fitter fit_background =
             xfit_design ext g z templates fitter fit_background)"
proof -
  have same: "Nphot g = 0 \<Longrightarrow> g\<lparr>Nphot := 0\<rparr> = g"
    by (cases g) simp
  show ?thesis
    using assms count_true_pos_iff [of eflam]
    by (auto simp: set_photometry_def Let_def same)
qed

theorem set_photometry_mismatch_witness:
  "length [Fin 1, Fin 2] \<noteq> length [Fin 1] \<and>
   (\<exists>g'. set_photometry [Fin 1, Fin 2] [Fin 1] [PhotFilter 5500] False None (2 / 100) toy_group =
            Inr (PyFalse, g') \<and>
          scif g' = scif toy_group \<and> sivarf g' = sivarf toy_group \<and>
          weightf g' = weightf toy_group \<and> fit_mask g' = fit_mask toy_group \<and>
          wavef g' = wavef toy_group \<and> Nmask g' = Nmask toy_group \<and> DoF g' = DoF toy_group)"
  using set_photometry_mismatch [where flam = "[Fin 1, Fin 2]" and eflam = "[Fin 1]"
      and filters = "[PhotFilter 5500]" and g = toy_group and force = False and tf = None
      and min_err = "2 / 100"]
  by (simp add: toy_group_def)

text \<open>
  Claim C9 as stated fails: with two fluxes and a single, negative uncertainty the lengths
  differ, yet the count of positive uncertainties is zero and the method returns
  \<^verbatim>\<open>True\<close> before it compares the lengths.
\<close>

theorem set_photometry_mismatch_true:
  "length [Fin 1, Fin 2] \<noteq> length [Fin (- 1)] \<and>
   set_photometry [Fin 1, Fin 2] [Fin (- 1)] [PhotFilter 5500] False None (2 / 100) toy_group =
     Inr (PyTrue, toy_group)"
  by (simp add: set_photometry_def toy_group_def count_true_def)

text \<open>
  Claim C10, as amended. Take a group without photometry whose weight and mask arrays have
  one length, and fluxes, uncertainties and filters of equal lengths, every uncertainty a
  finite positive number of moderate size (\<open>phot_in_range\<close>). Then
  \<^verbatim>\<open>set_photometry\<close> followed by \<^verbatim>\<open>unset_photometry\<close> both return, restore
  \<^verbatim>\<open>scif\<close>, \<^verbatim>\<open>sivarf\<close>, \<^verbatim>\<open>weightf\<close>, \<^verbatim>\<open>fit_mask\<close> and \<^verbatim>\<open>wavef\<close>, and leave
  \<^verbatim>\<open>Nphot = 0\<close>. \<^verbatim>\<open>Nmask\<close> and \<^verbatim>\<open>DoF\<close> are untouched when no point is given;
  otherwise they are recomputed from the restored arrays, as \<^verbatim>\<open>fit_mask.sum()\<close> and
  \<^verbatim>\<open>int((weightf*fit_mask).sum())\<close>: their values before the calls exactly when the
  group held these values.
\<close>

theorem set_unset_round_trip:
  assumes "Nphot g = 0" and "length flam = length filters"
    and "list_all2 (phot_in_range min_err) eflam flam"
    and "length (weightf g) = length (fit_mask g)"
  shows "\<exists>g2 s.
     set_then_unset flam eflam filters force tf min_err g = Inr g2 \<and>
     weighted_count (weightf g) (fit_mask g) = Inr s \<and>
     scif g2 = scif g \<and> sivarf g2 = sivarf g \<and> weightf g2 = weightf g \<and>
     fit_mask g2 = fit_mask g \<and> wavef g2 = wavef g \<and> Nphot g2 = 0 \<and>
     Nmask g2 = (if flam = [] then Nmask g else count_true (fit_mask g)) \<and>
     DoF g2 = (if flam = [] then DoF g else py_int s)"
proof -
  have len: "length flam = length eflam"
    using assms(3) by (simp add: list_all2_lengthD)
  note r = in_range_lists [OF assms(3)]
  obtain s where s: "weighted_count (weightf g) (fit_mask g) = Inr s"
    using assms(4) by (simp add: weighted_count_eq)
  show ?thesis
  proof (cases "eflam = []")
    case True
    then show ?thesis using assms(1) len s
      by (simp add: set_then_unset_def set_photometry_def unset_photometry_def count_true_def
          ebind_def)
  next
    case False
    then have n: "0 < length eflam" "flam \<noteq> []" using len by auto
    have cnt: "count_true (map fl_pos eflam) = length eflam"
      using r by (simp add: count_true_def)
    have wc: "weighted_count (weightf g @ replicate (length eflam) 1)
                (fit_mask g @ replicate (length eflam) True) =
              Inr (sum_list (map2 (\<lambda>x b. x * (if b then 1 else 0)) (weightf g) (fit_mask g))
                   + real (length eflam))"
      using assms(4) by (rule weighted_count_snoc_ones)
    have r1: "map (\<lambda>p. fl_add (fl_mul p (Fin 0)) (Fin 1)) (map2 (photom_err min_err) eflam flam)
                = replicate (length eflam) (Fin 1)"
      and r2: "list_all is_fin (map (fl_div (Fin 1)) (map2 (photom_err min_err) eflam flam))"
      and r3: "list_all is_fin flam"
      and r4: "map fl_pos eflam = replicate (length eflam) True"
      using r by simp_all
    have set1: "\<exists>g1. set_photometry flam eflam filters force tf min_err g = Inr (PyNone, g1) \<and>
        Nphot g1 = length eflam \<and>
        scif g1 = scif g @ map the_fin flam \<and>
        sivarf g1 = sivarf g @ map the_fin (map (fl_div (Fin 1)) (map2 (photom_err min_err) eflam flam)) \<and>
        weightf g1 = weightf g @ replicate (length eflam) 1 \<and>
        fit_mask g1 = fit_mask g @ replicate (length eflam) True \<and>
        wavef g1 = wavef g @ map pivot filters"
      unfolding set_photometry_def Let_def
      apply (simp only: r1 r2 r3 r4)
      using assms(1,2) len n wc
      apply (simp add: ebind_def count_true_def)
      done
    then obtain g1 where g1: "set_photometry flam eflam filters force tf min_err g = Inr (PyNone, g1)"
      and f: "Nphot g1 = length eflam" "scif g1 = scif g @ map the_fin flam"
        "sivarf g1 = sivarf g @ map the_fin (map (fl_div (Fin 1)) (map2 (photom_err min_err) eflam flam))"
        "weightf g1 = weightf g @ replicate (length eflam) 1"
        "fit_mask g1 = fit_mask g @ replicate (length eflam) True"
        "wavef g1 = wavef g @ map pivot filters"
      by blast
    have "\<exists>g2. unset_photometry g1 = Inr (PyNone, g2) \<and>
        scif g2 = scif g \<and> sivarf g2 = sivarf g \<and> weightf g2 = weightf g \<and>
        fit_mask g2 = fit_mask g \<and> wavef g2 = wavef g \<and> Nphot g2 = 0 \<and>
        Nmask g2 = count_true (fit_mask g) \<and> DoF g2 = py_int s"
      using f n len assms(2) s
      by (simp add: unset_photometry_def Let_def drop_last_def ebind_def)
    then show ?thesis
      using g1 s n by (auto simp: set_then_unset_def ebind_def)
  qed
qed

theorem set_unset_round_trip_witness:
  "list_all2 (phot_in_range (2 / 100)) [Fin 1] [Fin 5] \<and>
   (\<exists>g2 s.
     set_then_unset [Fin 5] [Fin 1] [PhotFilter 5500] False None (2 / 100) toy_group = Inr g2 \<and>
     weighted_count (weightf toy_group) (fit_mask toy_group) = Inr s \<and>
     scif g2 = scif toy_group \<and> sivarf g2 = sivarf toy_group \<and>
     weightf g2 = weightf toy_group \<and> fit_mask g2 = fit_mask toy_group \<and>
     wavef g2 = wavef toy_group \<and> Nphot g2 = 0 \<and>
     Nmask g2 = count_true (fit_mask toy_group) \<and> DoF g2 = py_int s)"
proof -
  have r: "list_all2 (phot_in_range (2 / 100)) [Fin 1] [Fin 5]"
    by (simp add: phot_in_range_def)
  have a: "Nphot toy_group = 0" "length (weightf toy_group) = length (fit_mask toy_group)"
    by (simp_all add: toy_group_def)
  show ?thesis
    using r set_unset_round_trip [where g = toy_group and flam = "[Fin 5]" and eflam = "[Fin 1]"
      and filters = "[PhotFilter 5500]" and force = False and tf = None and min_err = "2 / 100",
      OF a(1) _ r a(2)]
    by simp
qed

text \<open>
  Claim C10 as stated fails on a group whose \<^verbatim>\<open>DoF\<close> is not the weighted count of its
  valid pixels: \<^verbatim>\<open>unset_photometry\<close> recomputes \<^verbatim>\<open>DoF\<close> from the arrays, so the pair
  of calls turns 7 into 2.
\<close>

theorem set_unset_recomputes_DoF:
  "Nphot stale_group = 0 \<and> DoF stale_group = 7 \<and>
   set_then_unset [Fin 5] [Fin 1] [PhotFilter 5500] False None 0 stale_group =
     Inr (stale_group\<lparr>DoF := 2, photom_flam := [5], photom_eflam := [1],
            photom_filters := [PhotFilter 5500], photom_pivot := [5500]\<rparr>)"
  using DBL_bounds(4,5,6,7)
  by (simp add: set_then_unset_def set_photometry_def unset_photometry_def stale_group_def
      toy_group_def count_true_def photom_err_def fl_range_def weighted_count_def np_binop_def
      ebind_def drop_last_def py_int_def Let_def)

subsection \<open>The fit on the concrete inputs\<close>

lemmas np_defs = ebind_def np_binop_def count_true_def np_mask_def np_broadcast_def
  np_broadcast2_def row_op_def np_rows_binop_def np_rows_div_def bc_cols_def slice_stop_def
  set_tail_def np_min_def np_max_def np_dot_def np_T_def gram_def diagonal_def np_sqrt_def
  mask_assign_def scale_from_def scale_block_def set_idx_def np_polyval_def
  compute_scale_array_def fill_masked_covar_def zeros_def zeros2_def

lemmas design_defs = init_A_def template_spectrum_def beam_clip_def template_beam_def
  template_row_def interpolate_photometry_def set_phot_cols_def apply_pscale_def
  xfit_design_def xfit_pedestal_def xfit_data_def COEFF_SCALE_def IGM_MINZ_def

lemmas post_defs = xfit_solve_def xfit_background_def xfit_chi2_def covar_try_def
  xfit_covar_def COEFF_SCALE_def

lemmas toy_defs = toy_nnls_def toy_lstsq_def toy_first_column_def toy_matinv_def toy_ext_def
  toy_template_def phot_only_group_def toy_group_def

lemma toy_design_no_background:
  "xfit_design toy_ext toy_group 0 [(''a'', toy_template)] ''nnls'' False =
     Inr \<lparr>d_A = [[0, 0], [1, 2]], d_oktemp = [False, True],
          d_Ax = [[1, 2]], d_ncols = 2, d_sv = [1, 1], d_data = [1, 2],
          d_pedestal = 0, d_lower = [Some (- (1 / 20)), Some 0],
          d_upper = [Some (1 / 20), None]\<rparr>"
  by (simp add: np_defs design_defs toy_defs Let_def upt_rec eval_nat_numeral)

lemma toy_design_background:
  "xfit_design toy_ext toy_group 0 [(''a'', toy_template)] ''nnls'' True = Inr toy_design"
  by (simp add: np_defs design_defs toy_defs toy_design_def Let_def upt_rec eval_nat_numeral)

lemma toy_design_twins:
  "xfit_design toy_ext toy_group 0 [(''a'', toy_template), (''b'', toy_template)] ''nnls'' False =
     Inr twin_design"
  by (simp add: np_defs design_defs toy_defs twin_design_def Let_def upt_rec eval_nat_numeral)

lemma phot_only_design:
  "xfit_design toy_ext phot_only_group 0 [(''a'', toy_template)] ''nnls'' True =
     Inr \<lparr>d_A = [[0], [3 / 302500000]], d_oktemp = [False, True],
          d_Ax = [[3 / 302500000]], d_ncols = 1, d_sv = [1], d_data = [- 1],
          d_pedestal = 1 / 25, d_lower = [Some (- (1 / 20)), Some 0],
          d_upper = [Some (1 / 20), None]\<rparr>"
  by (simp add: np_defs design_defs toy_defs Let_def upt_rec eval_nat_numeral)

lemma N_toy: "N toy_group = Suc 0"
  by (simp add: toy_group_def)

lemma toy_ext_fields: "matinv toy_ext = toy_matinv" "nnls toy_ext = toy_nnls"
  by (simp_all add: toy_ext_def)

lemma toy_matinv_regular: "toy_matinv [[2, 3], [3, 5]] = Inr [[5, - 3], [- 3, 2]]"
  by (simp add: toy_matinv_def)

lemma toy_matinv_singular: "toy_matinv [[5, 5], [5, 5]] = Inl LinAlgError"
  by (simp add: toy_matinv_def)

lemma toy_lstsq_eval: "toy_lstsq [[1, 1], [1, 2]] [26 / 25, 51 / 25] = Inr [1 / 25, 1]"
  by (simp add: toy_lstsq_def np_T_def gram_def ebind_def toy_matinv_regular upt_rec
      eval_nat_numeral)

lemma toy_nnls_eval: "toy_nnls [[1, 1], [1, 2]] [26 / 25, 51 / 25] = Inr [1 / 25, 1]"
  by (simp add: toy_nnls_def toy_lstsq_eval)

lemma toy_solve: "xfit_solve toy_ext ''nnls'' toy_design = Inr [1 / 25, 1]"
  by (simp add: xfit_solve_def toy_design_def toy_ext_def np_T_def toy_nnls_eval upt_rec
      eval_nat_numeral)

lemma toy_background: "xfit_background toy_group True toy_design [1 / 25, 1] = Inr ([0, 1], [0, 0])"
  by (simp add: xfit_background_def toy_design_def toy_group_def np_dot_def ebind_def upt_rec
      eval_nat_numeral)

lemma toy_chi2: "xfit_chi2 toy_group True toy_design [0, 1] [0, 0] = Inr 0"
  by (simp add: xfit_chi2_def toy_design_def toy_group_def np_defs upt_rec eval_nat_numeral)

lemma toy_fill: "fill_masked_covar [[5, - 3], [- 3, 2]] [True, True] = Inr [[5, - 3], [- 3, 2]]"
  by (simp add: fill_masked_covar_def count_true_def upt_rec eval_nat_numeral)

lemma toy_gram: "gram [[1, 1], [1, 2]] = [[2, 3], [3, 5]]" "gram [[1, 2], [1, 2]] = [[5, 5], [5, 5]]"
  by (simp_all add: gram_def)

lemma toy_diagonal: "diagonal [[5, - 3], [- 3, 2]] = [5, 2]"
  by (simp add: diagonal_def upt_rec eval_nat_numeral)

lemma toy_sqrt: "np_sqrt [5, 2] = Inr [sqrt 5, sqrt 2]"
  by (simp add: np_sqrt_def)

lemma toy_design_fields:
  "d_Ax toy_design = [[1, 1], [1, 2]]" "d_oktemp toy_design = [True, True]"
  "d_Ax twin_design = [[1, 2], [1, 2]]" "d_oktemp twin_design = [False, True, True]"
  by (simp_all add: toy_design_def twin_design_def)

lemma toy_covar_try:
  "covar_try toy_ext toy_design (Suc 0) [0, 1] = Inr ([[5, - 3], [- 3, 2]], [sqrt 5, sqrt 2])"
  by (simp add: covar_try_def toy_design_fields toy_ext_fields toy_gram toy_matinv_regular
      toy_fill toy_diagonal toy_sqrt ebind_def)

lemma toy_covar:
  "xfit_covar toy_ext toy_group (Suc 0) toy_design (Suc 0) [0, 1] =
     Inr ([[5, - 3], [- 3, 2]], [sqrt 5, sqrt 2])"
  by (simp add: xfit_covar_def toy_covar_try)

lemma toy_assign: "mask_assign (zeros (Suc (Suc 0))) (d_oktemp toy_design) [0, 1] = Inr [0, 1]"
  by (simp add: mask_assign_def zeros_def toy_design_def count_true_def np_broadcast_def
      ebind_def)

lemma toy_fit_background:
  "xfit_at_z toy_ext toy_group 0 [(''a'', toy_template)] ''nnls'' True 1 False =
     Inr (FitOut 0 [0, 1 / 10 ^ 19] [sqrt 5, sqrt 2 / 10 ^ 19]
            [[5, - 3], [- 3, 2 / 10 ^ 38]])"
  unfolding xfit_at_z_def toy_design_background
  by (simp add: ebind_def toy_solve toy_background toy_chi2 toy_covar toy_assign N_toy
      scale_from_def scale_block_def COEFF_SCALE_def power2_eq_square)

text \<open>
  Claim C1 as stated fails: without background fitting the claim gives the coefficient array
  the length \<open>N_templates = 1\<close>, and the code returns \<open>self.N + NTEMP = 2\<close> coefficients,
  the first one the zero of the unfitted background.
\<close>

theorem xfit_at_z_no_background_length:
  "xfit_at_z toy_ext toy_group 0 [(''a'', toy_template)] ''nnls'' False 0 False =
     Inr (FitOut 0 [0, 1 / 10 ^ 19] [0, 0] [[0, 0], [0, 0]]) \<and>
   length [0, 1 / 10 ^ 19 :: real] \<noteq> length [(''a'', toy_template)]"
  unfolding xfit_at_z_def toy_design_no_background
  by (simp add: np_defs post_defs toy_defs Let_def upt_rec eval_nat_numeral)

theorem xfit_at_z_shapes_witness:
  "xfit_at_z toy_ext toy_group 0 [(''a'', toy_template)] ''nnls'' True 1 False =
     Inr (FitOut 0 [0, 1 / 10 ^ 19] [sqrt 5, sqrt 2 / 10 ^ 19] [[5, - 3], [- 3, 2 / 10 ^ 38]]) \<and>
   length [0, 1 / 10 ^ 19 :: real] = N toy_group + length [(''a'', toy_template)] \<and>
   length [[5, - 3], [- 3, 2 / 10 ^ 38 :: real]] = N toy_group + length [(''a'', toy_template)]"
  using xfit_at_z_shapes [OF toy_fit_background] toy_fit_background by simp

text \<open>
  Claim C5 fails on the code. The single exposure has no valid pixel, so its background row
  is all zero and \<^verbatim>\<open>oktemp\<close> drops it; \<^verbatim>\<open>coeffs_i\<close> then holds the template
  coefficient only, and \<^verbatim>\<open>coeffs_i[:self.N] -= pedestal\<close> subtracts the pedestal from
  it. The solver returns 0 for the negative flux, and the template coefficient that
  \<^verbatim>\<open>xfit_at_z\<close> returns is \<open>- 0.04 \<cdot> 10\<^sup>-\<^sup>1\<^sup>9\<close>.
\<close>

theorem xfit_nnls_negative_template:
  "xfit_at_z toy_ext phot_only_group 0 [(''a'', toy_template)] ''nnls'' True 0 False =
     Inr (FitOut 1 [0, - (4 / 100) / 10 ^ 19] [0, 0] [[0, 0], [0, 0]])"
  unfolding xfit_at_z_def phot_only_design
  by (simp add: np_defs post_defs toy_defs Let_def upt_rec eval_nat_numeral)

subsection \<open>A failing covariance\<close>

lemma scale_from_zeros: "scale_from n c (zeros m) = zeros m"
proof -
  have "replicate (min n m) (0::real) @ replicate (m - n) 0 = replicate m 0"
    by (simp add: replicate_add [symmetric])
  then show ?thesis by (simp add: scale_from_def zeros_def)
qed

lemma scale_block_zeros2: "scale_block n c (zeros2 m k) = zeros2 m k"
proof -
  have "replicate (min n m) (zeros k) @ replicate (m - n) (zeros k) = replicate m (zeros k)"
    by (simp add: replicate_add [symmetric])
  then show ?thesis by (simp add: scale_block_def zeros2_def scale_from_zeros)
qed

lemma xfit_covar_off:
  "xfit_covar ext g NTEMP d 0 ci = Inr (zeros2 (N g + NTEMP) (N g + NTEMP), zeros (N g + NTEMP))"
  by (simp add: xfit_covar_def)

lemma xfit_covar_caught:
  assumes "covar_try ext d gu ci = Inl e" and "e \<noteq> NonFinite"
  shows "xfit_covar ext g NTEMP d gu ci =
           Inr (zeros2 (N g + NTEMP) (N g + NTEMP), zeros (N g + NTEMP))"
  using assms by (cases e) (simp_all add: xfit_covar_def)

lemma covar_try_matinv:
  "matinv ext (gram (d_Ax d)) = Inl e \<Longrightarrow> covar_try ext d gu ci = Inl e"
  by (simp add: covar_try_def ebind_def)

text \<open>
  Claim C4. When the inversion of \<^verbatim>\<open>AxT.T \<cdot> AxT\<close> raises (a singular matrix raises
  \<^verbatim>\<open>LinAlgError\<close>), \<^verbatim>\<open>xfit_at_z\<close> with uncertainties requested does what it does
  without them: it returns whenever the solver, the model and the assembly of the
  coefficients return, with their chi-squared and coefficients, and with the covariance and
  the uncertainties all zero, of size \<^verbatim>\<open>self.N + NTEMP\<close>.
\<close>

theorem covariance_failure_zero:
  assumes "xfit_design ext g z templates fitter fit_background = Inr d"
    and "matinv ext (gram (d_Ax d)) = Inl e" and "e \<noteq> NonFinite"
    and "gu \<noteq> 0"
  shows "xfit_at_z ext g z templates fitter fit_background gu False =
           ebind (xfit_solve ext fitter d) (\<lambda>c0.
           ebind (xfit_background g fit_background d c0) (\<lambda>cb.
           ebind (xfit_chi2 g fit_background d (fst cb) (snd cb)) (\<lambda>chi2.
           ebind (mask_assign (zeros (N g + length templates)) (d_oktemp d) (fst cb)) (\<lambda>coeffs.
             Inr (FitOut chi2 (scale_from (N g) COEFF_SCALE coeffs)
                    (zeros (N g + length templates))
                    (zeros2 (N g + length templates) (N g + length templates)))))))
         \<and> xfit_at_z ext g z templates fitter fit_background gu False =
           xfit_at_z ext g z templates fitter fit_background 0 False"
proof -
  have c: "xfit_covar ext g (length templates) d gu ci =
             Inr (zeros2 (N g + length templates) (N g + length templates),
                  zeros (N g + length templates))" for ci
    using covar_try_matinv [OF assms(2)] assms(3) by (rule xfit_covar_caught)
  show ?thesis
    by (simp add: xfit_at_z_def Let_def assms(1) c xfit_covar_off ebind_def scale_from_zeros
        scale_block_zeros2 split: sum.splits prod.splits)
qed

lemma twin_solve: "xfit_solve toy_ext ''nnls'' twin_design = Inr [1, 0]"
  by (simp add: xfit_solve_def twin_design_def toy_ext_def np_T_def toy_nnls_def toy_lstsq_def
      toy_first_column_def gram_def toy_matinv_singular ebind_def upt_rec eval_nat_numeral)

lemma twin_background: "xfit_background toy_group False twin_design [1, 0] = Inr ([1, 0], [0, 0])"
  by (simp add: xfit_background_def toy_group_def np_mask_def ebind_def)

lemma twin_chi2: "xfit_chi2 toy_group False twin_design [1, 0] [0, 0] = Inr 0"
  by (simp add: xfit_chi2_def twin_design_def toy_group_def np_defs upt_rec eval_nat_numeral)

lemma twin_assign:
  "mask_assign (zeros (N toy_group + length [(''a'', toy_template), (''b'', toy_template)]))
     (d_oktemp twin_design) [1, 0] = Inr [0, 1, 0]"
  by (simp add: mask_assign_def zeros_def twin_design_def toy_group_def count_true_def
      np_broadcast_def ebind_def)

theorem covariance_failure_zero_witness:
  "xfit_design toy_ext toy_group 0 [(''a'', toy_template), (''b'', toy_template)] ''nnls'' False =
     Inr twin_design \<and>
   matinv toy_ext (gram (d_Ax twin_design)) = Inl LinAlgError \<and>
   xfit_at_z toy_ext toy_group 0 [(''a'', toy_template), (''b'', toy_template)] ''nnls'' False 1 False =
     Inr (FitOut 0 [0, 1 / 10 ^ 19, 0] [0, 0, 0] [[0, 0, 0], [0, 0, 0], [0, 0, 0]])"
proof -
  have m: "matinv toy_ext (gram (d_Ax twin_design)) = Inl LinAlgError"
    by (simp add: toy_ext_fields toy_design_fields toy_gram toy_matinv_singular)
  have ne: "LinAlgError \<noteq> NonFinite" and g1: "(1::nat) \<noteq> 0"
    by simp_all
  note f = covariance_failure_zero [OF toy_design_twins m ne g1, THEN conjunct1]
  have "xfit_at_z toy_ext toy_group 0 [(''a'', toy_template), (''b'', toy_template)] ''nnls''
          False 1 False =
        Inr (FitOut 0 [0, 1 / 10 ^ 19, 0] [0, 0, 0] [[0, 0, 0], [0, 0, 0], [0, 0, 0]])"
    unfolding f
    apply (simp only: twin_solve twin_background twin_chi2 twin_assign ebind_def sum.case
        fst_conv snd_conv)
    apply (simp add: N_toy scale_from_def COEFF_SCALE_def zeros_def zeros2_def)
    done
  then show ?thesis using toy_design_twins m by simp
qed

subsection \<open>The pedestal\<close>

lemma fill_mask_nth:
  "length m = length base \<Longrightarrow> length vs = count_true m \<Longrightarrow> i < length base \<Longrightarrow>
   fill_mask base m vs ! i = (if m ! i then vs ! count_true (take i m) else base ! i)"
proof (induction base arbitrary: m vs i)
  case Nil
  then show ?case by simp
next
  case (Cons b bs)
  then obtain mh mt where m: "m = mh # mt" by (cases m) auto
  show ?case
  proof (cases mh)
    case True
    with Cons.prems m obtain v vs' where vs: "vs = v # vs'"
      by (cases vs) (auto simp: count_true_def)
    show ?thesis
    proof (cases i)
      case 0
      then show ?thesis using True m vs by (simp add: count_true_def)
    next
      case (Suc j)
      have "fill_mask bs mt vs' ! j =
              (if mt ! j then vs' ! count_true (take j mt) else bs ! j)"
        using Cons.prems m vs True Suc by (intro Cons.IH) (auto simp: count_true_def)
      then show ?thesis using True m vs Suc by (simp add: count_true_def)
    qed
  next
    case False
    show ?thesis
    proof (cases i)
      case 0
      then show ?thesis using False m by simp
    next
      case (Suc j)
      have "fill_mask bs mt vs ! j =
              (if mt ! j then vs ! count_true (take j mt) else bs ! j)"
        using Cons.prems m False Suc by (intro Cons.IH) (auto simp: count_true_def)
      then show ?thesis using False m Suc by (simp add: count_true_def)
    qed
  qed
qed

lemma count_true_take_le: "count_true (take i m) \<le> i"
proof -
  have "length (filter id (take i m)) \<le> length (take i m)" by (rule length_filter_le)
  then show ?thesis by (simp add: count_true_def)
qed

lemma count_true_take_less:
  assumes "i < length m" and "m ! i"
  shows "count_true (take i m) < count_true m"
proof -
  have "m = take i m @ m ! i # drop (Suc i) m"
    using assms(1) by (rule id_take_nth_drop)
  then have "count_true m = count_true (take i m @ m ! i # drop (Suc i) m)" by simp
  then show ?thesis using assms(2) by (simp add: count_true_def)
qed

lemma mask_select_nth:
  "length xs = length m \<Longrightarrow>
   map fst (filter snd (zip xs m)) = map ((!) xs) (filter ((!) m) [0..<length xs])"
proof (induction xs arbitrary: m)
  case Nil
  then show ?case by simp
next
  case (Cons x xs)
  then obtain b bs where m: "m = b # bs" by (cases m) auto
  have ih: "map fst (filter snd (zip xs bs)) = map ((!) xs) (filter ((!) bs) [0..<length xs])"
    using Cons.prems m by (intro Cons.IH) simp
  have upt: "[0..<length (x # xs)] = 0 # map Suc [0..<length xs]"
    by (simp add: upt_conv_Cons map_Suc_upt del: upt_Suc)
  show ?case
    unfolding upt m by (simp add: ih filter_map o_def)
qed

lemma xfit_design_data:
  assumes "xfit_design ext g z templates fitter fb = Inr d"
  shows "d_pedestal d = xfit_pedestal fitter fb \<and> xfit_data g (d_pedestal d) = Inr (d_data d)"
  using assms unfolding xfit_design_def Let_def ebind_Inr by auto

lemma pedestal_sum:
  assumes "case sp of SpecScalar c \<Rightarrow> True | SpecMask m \<Rightarrow> length m = length xs"
    and "np_binop (+) xs
           (case sp of SpecScalar c \<Rightarrow> [p * c]
            | SpecMask m \<Rightarrow> map (\<lambda>b. p * (if b then 1 else 0)) m) = Inr t1"
  shows "t1 = map (\<lambda>i. xs ! i + p * is_spec_at sp i) [0..<length xs]"
proof (cases sp)
  case (SpecScalar c)
  then have "t1 = map (\<lambda>x. x + p * c) xs"
    using assms(2) by (cases xs) (auto simp: np_binop_def split: if_splits)
  then show ?thesis
    using SpecScalar by (auto simp: is_spec_at_def intro!: nth_equalityI)
next
  case (SpecMask m)
  then have "t1 = map2 (+) xs (map (\<lambda>b. p * (if b then 1 else 0)) m)" and "length m = length xs"
    using assms by (auto simp: np_binop_def)
  then show ?thesis
    using SpecMask by (auto simp: is_spec_at_def intro!: nth_equalityI)
qed

lemma spec_data_eq:
  assumes "arrays_aligned g" and "xfit_data g p = Inr data"
  shows "data = spec_data g p"
proof -
  let ?n = "length (scif g)"
  from assms(2) obtain t1 t2 where
    b: "np_binop (+) (scif g)
           (case is_spec g of SpecScalar c \<Rightarrow> [p * c]
            | SpecMask m \<Rightarrow> map (\<lambda>b. p * (if b then 1 else 0)) m) = Inr t1"
      "np_binop (*) t1 (sivarf g) = Inr t2" "np_mask t2 (fit_mask g) = Inr data"
    unfolding xfit_data_def ebind_Inr by blast
  have al: "length (sivarf g) = ?n" "length (fit_mask g) = ?n"
    "case is_spec g of SpecScalar c \<Rightarrow> True | SpecMask m \<Rightarrow> length m = ?n"
    using assms(1) by (simp_all add: arrays_aligned_def)
  have t1: "t1 = map (\<lambda>i. scif g ! i + p * is_spec_at (is_spec g) i) [0..<?n]"
    using al(3) b(1) by (rule pedestal_sum)
  then have l1: "length t1 = ?n" by simp
  have t2: "t2 = map2 (*) t1 (sivarf g)"
    using b(2) l1 al(1) by (simp add: np_binop_def)
  then have l2: "length t2 = ?n" using l1 al(1) by simp
  have e2: "t2 ! i = (scif g ! i + p * is_spec_at (is_spec g) i) * sivarf g ! i" if "i < ?n" for i
    using that t1 t2 l1 al(1) by simp
  have "data = map ((!) t2) (filter ((!) (fit_mask g)) [0..<length t2])"
    using b(3) l2 al(2) mask_select_nth [of t2 "fit_mask g"] by (simp add: np_mask_def)
  also have "\<dots> = map (\<lambda>i. (scif g ! i + p * is_spec_at (is_spec g) i) * sivarf g ! i)
                   (filter ((!) (fit_mask g)) [0..<?n])"
    using e2 l2 by (intro map_cong) auto
  finally show ?thesis by (simp add: spec_data_def)
qed

lemma shifted_coefficient:
  assumes "r \<le> i" and "i < n" and "r < length c0"
  shows "(map (\<lambda>x. x - p) (take n c0) @ drop n c0) ! r = c0 ! r - (p::real)"
  using assms by (simp add: nth_append)

text \<open>
  Claim C7. With the background fitted and the fitter \<^verbatim>\<open>nnls\<close> or \<^verbatim>\<open>lstsq\<close>, on a
  group whose arrays are aligned and a solver that returns one coefficient per retained row:
  the data vector given to the solver is the science array with 0.04 added at the spectral
  positions (those flagged by \<^verbatim>\<open>is_spec\<close>), weighted and masked; the background array is
  \<^verbatim>\<open>np.dot(coeffs_i[:self.N], A[:self.N,:])\<close> minus 0.04, zero at the photometric
  positions; and every background coefficient that \<^verbatim>\<open>xfit_at_z\<close> returns is the solved
  one minus 0.04, or 0 for a background row that \<^verbatim>\<open>oktemp\<close> dropped.
\<close>

theorem pedestal_added_and_subtracted:
  assumes "fit_background" and "fitter = ''nnls'' \<or> fitter = ''lstsq''"
    and "arrays_aligned g"
    and "xfit_design ext g z templates fitter fit_background = Inr d"
    and "xfit_solve ext fitter d = Inr c0" and "length c0 = count_true (d_oktemp d)"
    and "xfit_at_z ext g z templates fitter fit_background gu False =
           Inr (FitOut chi2 coeffs coeffs_err covar)"
  shows "d_data d = spec_data g (4 / 100) \<and>
         (\<exists>b0. np_dot (take (N g) c0) (take (N g) (d_A d)) (Nmask g) = Inr b0 \<and>
               xfit_background g fit_background d c0 =
                 Inr (map (\<lambda>x. x - 4 / 100) (take (N g) c0) @ drop (N g) c0,
                      if Nphot g > 0 then set_tail (Nphot g) 0 (map (\<lambda>x. x - 4 / 100) b0)
                      else map (\<lambda>x. x - 4 / 100) b0)) \<and>
         (\<forall>i<N g. coeffs ! i =
            (if d_oktemp d ! i then c0 ! count_true (take i (d_oktemp d)) - 4 / 100 else 0))"
proof -
  have ped: "d_pedestal d = 4 / 100"
    using xfit_design_data [OF assms(4)] assms(1,2) by (auto simp: xfit_pedestal_def)
  have "xfit_data g (4 / 100) = Inr (d_data d)"
    using xfit_design_data [OF assms(4)] ped by simp
  with assms(3) have data: "d_data d = spec_data g (4 / 100)"
    by (rule spec_data_eq)
  from assms(7) obtain ci bg cov covd cf where
    bgr: "xfit_background g fit_background d c0 = Inr (ci, bg)"
    and ma: "mask_assign (zeros (N g + length templates)) (d_oktemp d) ci = Inr cf"
    and co: "coeffs = scale_from (N g) COEFF_SCALE cf"
    by (auto simp: xfit_at_z_def Let_def ebind_Inr assms(4,5))
  from bgr assms(1) obtain b0 where
    b0: "np_dot (take (N g) c0) (take (N g) (d_A d)) (Nmask g) = Inr b0"
    and ci: "ci = map (\<lambda>x. x - 4 / 100) (take (N g) c0) @ drop (N g) c0"
    and bg: "bg = (if Nphot g > 0 then set_tail (Nphot g) 0 (map (\<lambda>x. x - 4 / 100) b0)
                   else map (\<lambda>x. x - 4 / 100) b0)"
    by (auto simp: xfit_background_def Let_def ebind_Inr ped)
  have lci: "length ci = count_true (d_oktemp d)"
    using ci assms(6) by simp
  from ma lci have lm: "length (d_oktemp d) = N g + length templates"
    and cf: "cf = fill_mask (zeros (N g + length templates)) (d_oktemp d) ci"
    by (auto simp: mask_assign_def np_broadcast_def ebind_def zeros_def split: if_splits)
  have lcf: "length cf = N g + length templates"
    using cf by (simp add: length_fill_mask zeros_def)
  have coeff: "coeffs ! i =
      (if d_oktemp d ! i then c0 ! count_true (take i (d_oktemp d)) - 4 / 100 else 0)"
    if i: "i < N g" for i
  proof -
    have "coeffs ! i = cf ! i"
      using i lcf co by (simp add: scale_from_def nth_append)
    also have "\<dots> = (if d_oktemp d ! i then ci ! count_true (take i (d_oktemp d))
                     else zeros (N g + length templates) ! i)"
      unfolding cf using lm lci i by (intro fill_mask_nth) (simp_all add: zeros_def)
    finally have c: "coeffs ! i = (if d_oktemp d ! i then ci ! count_true (take i (d_oktemp d))
                     else zeros (N g + length templates) ! i)" .
    show ?thesis
    proof (cases "d_oktemp d ! i")
      case True
      have "count_true (take i (d_oktemp d)) < length c0"
        using count_true_take_less [of i "d_oktemp d"] True i lm assms(6) by simp
      then have "ci ! count_true (take i (d_oktemp d)) =
                   c0 ! count_true (take i (d_oktemp d)) - 4 / 100"
        unfolding ci using count_true_take_le [of i "d_oktemp d"] i
        by (intro shifted_coefficient [where i = i]) simp_all
      then show ?thesis using c True by simp
    next
      case False
      then show ?thesis using c i by (simp add: zeros_def)
    qed
  qed
  show ?thesis using data b0 bgr ci bg coeff by simp
qed

theorem pedestal_added_and_subtracted_witness:
  "arrays_aligned toy_group \<and>
   xfit_design toy_ext toy_group 0 [(''a'', toy_template)] ''nnls'' True = Inr toy_design \<and>
   xfit_solve toy_ext ''nnls'' toy_design = Inr [1 / 25, 1] \<and>
   d_data toy_design = spec_data toy_group (4 / 100) \<and>
   d_oktemp toy_design ! 0 \<and>
   [0, 1 / 10 ^ 19] ! 0 = [1 / 25, 1] ! count_true (take 0 (d_oktemp toy_design)) - (4 / 100 :: real)"
proof -
  have al: "arrays_aligned toy_group"
    by (simp add: arrays_aligned_def toy_group_def)
  have len: "length [1 / 25, 1 :: real] = count_true (d_oktemp toy_design)"
    by (simp add: toy_design_fields count_true_def)
  have fb: "True" and ft: "''nnls'' = ''nnls'' \<or> ''nnls'' = ''lstsq''"
    by simp_all
  have ok: "d_oktemp toy_design ! 0" by (simp add: toy_design_fields)
  from pedestal_added_and_subtracted [OF fb ft al toy_design_background toy_solve len
      toy_fit_background]
  have "d_data toy_design = spec_data toy_group (4 / 100)"
    and "\<forall>i<N toy_group. [0, 1 / 10 ^ 19] ! i =
      (if d_oktemp toy_design ! i
       then [1 / 25, 1] ! count_true (take i (d_oktemp toy_design)) - 4 / 100 else (0::real))"
    by simp_all
  then show ?thesis
    using al toy_design_background toy_solve ok by (simp add: N_toy)
qed

end
